theory Spec2Isabelle
  imports Main "HOL-Library.Word"
begin

unbundle bit_operations_syntax

section \<open>Values shared by all components\<close>

type_synonym byte = "8 word"

text \<open>
  Every exception the modelled code can raise is a value. The constructor names the
  \<^verbatim>\<open>throw\<close> site; failures of collaborators (\<^verbatim>\<open>fetch\<close>, \<^verbatim>\<open>lodepng\<close>,
  \<^verbatim>\<open>writeFileSync\<close>, the MQTT client) are \<open>External\<close> with a label.
  \<^item> \<open>UnimplementedStarPRNT\<close>: \<^verbatim>\<open>new Error('Unimplemented StarPRNT data')\<close>, the
    decoder's only error (the specification calls it MalformedRasterError);
  \<^item> \<open>RangeError\<close>: \<^verbatim>\<open>new Uint8Array(n)\<close> for a length that the engine does not
    allocate;
  \<^item> \<open>TypeError\<close>: a property read or a method call on \<^verbatim>\<open>undefined\<close> or
    \<^verbatim>\<open>null\<close>;
  \<^item> \<open>UnsupportedMediaTypes\<close>, \<open>UnsupportedJobType\<close>, \<open>UnsupportedMessageType\<close>,
    \<open>TriggerPostUnsupported\<close>, \<open>ServerError\<close>, \<open>UnexpectedResponse\<close>,
    \<open>RequestFailed\<close>: the \<^verbatim>\<open>new Error(...)\<close> of the transports and the negotiator.
\<close>

datatype error =
    UnimplementedStarPRNT
  | RangeError
  | TypeError
  | UnsupportedMediaTypes "string list"
  | UnsupportedJobType "string option"
  | UnsupportedMessageType "string option"
  | TriggerPostUnsupported
  | ServerError nat
  | UnexpectedResponse nat
  | RequestFailed string nat
  | External string

section \<open>Raster decoder (src/unnamed/part_001, imported as lib/starprnt.js)\<close>

record imageData =
  data :: "byte list"
  width :: nat
  height :: nat

text \<open>\<^verbatim>\<open>data[k]\<close> on a Uint8Array: \<^verbatim>\<open>undefined\<close> (here \<open>None\<close>) for an index that is
  negative or not below the length, never an exception.\<close>

definition byteAt :: "byte list \<Rightarrow> int \<Rightarrow> byte option" where
  "byteAt buf k = (if 0 \<le> k \<and> nat k < length buf then Some (buf ! nat k) else None)"

text \<open>ToInt32, applied by \<^verbatim>\<open>| 0\<close> to an integral number: reduction modulo \<open>2^32\<close> into
  the signed range.\<close>

definition toInt32 :: "int \<Rightarrow> int" where
  "toInt32 n = (let m = n mod 2 ^ 32 in if m < 2 ^ 31 then m else m - 2 ^ 32)"

text \<open>The operand conversion of \<^verbatim>\<open>>>\<close>: a byte is its value, \<^verbatim>\<open>undefined\<close> is 0.\<close>

definition numOf :: "byte option \<Rightarrow> int" where
  "numOf v = (case v of None \<Rightarrow> 0 | Some b \<Rightarrow> uint b)"

text \<open>Line 10: the five header bytes that are compared with \<^verbatim>\<open>!==\<close>; an absent byte
  is \<^verbatim>\<open>undefined\<close> and differs from every constant.\<close>

definition headerMismatch :: "byte list \<Rightarrow> bool" where
  "headerMismatch buf \<longleftrightarrow>
     byteAt buf 0 \<noteq> Some 0x1b \<or> byteAt buf 1 \<noteq> Some 0x1d \<or> byteAt buf 2 \<noteq> Some 0x53 \<or>
     byteAt buf 3 \<noteq> Some 0x01 \<or> byteAt buf 8 \<noteq> Some 0x00"

text \<open>Line 21: \<^verbatim>\<open>(data[(inPtr / 8) | 0] >> (7 - (inPtr % 8))) & 1 ? 0 : 255\<close>.\<close>

definition pixelOf :: "byte list \<Rightarrow> nat \<Rightarrow> byte" where
  "pixelOf buf inPtr =
     (if (drop_bit (7 - inPtr mod 8) (numOf (byteAt buf (toInt32 (int inPtr div 8))))) AND 1 \<noteq> 0
      then 0 else 255)"

text \<open>Lines 20 to 26, the loop: the state is \<open>outPtr\<close>, \<open>inPtr\<close> and the pixel array;
  the final \<open>inPtr\<close> is returned too, so that the number of iterations can be read off.
  A write beyond the end of a typed array is ignored, as \<open>xs[i := v]\<close> is.\<close>

function fill :: "byte list \<Rightarrow> nat \<Rightarrow> nat \<Rightarrow> byte list \<Rightarrow> byte list \<times> nat" where
  "fill buf outPtr inPtr pixelData =
     (if outPtr < length pixelData then
        let pixel = pixelOf buf inPtr;
            pixelData = pixelData[outPtr := pixel];
            pixelData = pixelData[outPtr + 1 := pixel];
            pixelData = pixelData[outPtr + 2 := pixel];
            pixelData = pixelData[outPtr + 3 := 255]
        in fill buf (outPtr + 4) (inPtr + 1) pixelData
      else (pixelData, inPtr))"
  by pat_completeness auto
termination
  by (relation "measure (\<lambda>(buf, outPtr, inPtr, pixelData). length pixelData - outPtr)") auto

declare fill.simps [simp del]

text \<open>Lines 10 to 28: the header check, the two little-endian sizes, the allocation
  (zero-filled) and the loop. The reads of bytes 4 to 7 are in range once the check has
  passed, since byte 8 is present. Numbers are exact here: the sizes are below \<open>2^16\<close>
  and the products far below \<open>2^53\<close>. \<^verbatim>\<open>new Uint8Array(n)\<close> on line 18 throws a
  RangeError when the engine does not allocate \<open>n\<close> bytes. The longest typed array that
  the engine allocates is not fixed by the repository: it is the parameter
  \<open>maxLength\<close>.\<close>

definition decodeRaster :: "nat \<Rightarrow> byte list \<Rightarrow> error + imageData" where
  "decodeRaster maxLength buf =
     (if headerMismatch buf then Inl UnimplementedStarPRNT
      else
        let height = unat (buf ! 6) + push_bit 8 (unat (buf ! 7));
            widthBytes = unat (buf ! 4) + push_bit 8 (unat (buf ! 5));
            width = widthBytes * 8
        in if maxLength < width * height * 4 then Inl RangeError
           else
             let pixelData = replicate (width * height * 4) 0
             in Inr \<lparr>data = fst (fill buf 0 (9 * 8) pixelData),
                     width = width, height = height\<rparr>)"

text \<open>Lines 9 to 35. \<^verbatim>\<open>rotate\<close> (rotate-image-data) and \<^verbatim>\<open>lodepng.encode\<close> are
  libraries, taken as parameters.\<close>

definition convertStarprntToPng ::
  "nat \<Rightarrow> (imageData \<Rightarrow> imageData) \<Rightarrow> (imageData \<Rightarrow> error + byte list) \<Rightarrow>
   byte list \<Rightarrow> bool \<Rightarrow> error + byte list" where
  "convertStarprntToPng maxLength rot enc buf rotate180 =
     (case decodeRaster maxLength buf of
        Inl e \<Rightarrow> Inl e
      | Inr imageData \<Rightarrow> enc (if rotate180 then rot imageData else imageData))"

text \<open>Reading pixel \<open>(x, y)\<close> of an image: four bytes, row-major.\<close>

definition rgbaAt :: "imageData \<Rightarrow> nat \<Rightarrow> nat \<Rightarrow> byte \<times> byte \<times> byte \<times> byte" where
  "rgbaAt img x y =
     (let p = 4 * (y * width img + x)
      in (data img ! p, data img ! (p + 1), data img ! (p + 2), data img ! (p + 3)))"

section \<open>Requests, messages and traces\<close>

text \<open>What the server sends. \<open>jobInfo\<close> holds the two fields that a poll response and an
  MQTT print-job message share. The fields are typed as the JSDoc of \<^verbatim>\<open>post\<close> types
  them (\<^verbatim>\<open>jobToken?: string, mediaTypes?: string[]\<close>). For \<open>jobToken\<close>,
  \<open>mediaTypes\<close>, \<open>jobType\<close>, \<open>printData\<close>, \<open>title\<close> and \<open>request\<close> the code
  takes the same branches for an absent field and for \<^verbatim>\<open>null\<close>, and both are \<open>None\<close>. For
  \<open>clientAction\<close> it does not (\<^verbatim>\<open>typeof null\<close> is not \<^verbatim>\<open>"undefined"\<close>), and the
  field has three forms. The entries of \<open>clientAction\<close> are objects.\<close>

datatype 'a field = Absent | Null | Present 'a

record actionEntry =
  request :: "string option"

record jobInfo =
  jobToken :: "string option"
  mediaTypes :: "string list option"

record pollStatus = jobInfo +
  jobReady :: bool
  clientAction :: "actionEntry list field"

record mqttPayload = jobInfo +
  title :: "string option"
  jobType :: "string option"
  printData :: "string option"

datatype jsval = Num int | Str string

datatype message =
    ClientStatus bool
  | PrintResult "string option" bool string

text \<open>Everything the emulator does to the outside world, in order. \<open>POST\<close> carries the
  \<^verbatim>\<open>clientAction\<close> answers of a custom body (\<open>None\<close>: the plain status body);
  \<open>GET\<close> the media type, the device address and the token parameter; \<open>DELETE\<close> the
  code, the device address and the token parameter; \<open>PUBLISH\<close> the topic and the message
  (\<open>ClientStatus printingInProgress\<close>, \<open>PrintResult jobToken printSucceeded statusCode\<close>).\<close>

datatype event =
    POST "(string \<times> jsval) list option"
  | GET string string "string option"
  | DELETE string string "string option"
  | SETTINGS_GET
  | SUBSCRIBE string
  | PUBLISH string message
  | WriteFile "byte list"
  | Sleep int
  | LogError error

type_synonym 'a io = "event list \<times> (error + 'a)"

text \<open>Selecting the requests of a trace.\<close>

fun isGET :: "event \<Rightarrow> bool" where
  "isGET (GET type mac tok) = True"
| "isGET ev = False"

fun isDELETE :: "event \<Rightarrow> bool" where
  "isDELETE (DELETE code mac tok) = True"
| "isDELETE ev = False"

fun isRequest :: "event \<Rightarrow> bool" where
  "isRequest (POST body) = True"
| "isRequest (GET type mac tok) = True"
| "isRequest (DELETE code mac tok) = True"
| "isRequest ev = False"

fun isPrintResult :: "event \<Rightarrow> bool" where
  "isPrintResult (PUBLISH topic (PrintResult tok ok code)) = True"
| "isPrintResult ev = False"

fun isClientStatus :: "bool \<Rightarrow> event \<Rightarrow> bool" where
  "isClientStatus b (PUBLISH topic (ClientStatus printingInProgress)) = (b = printingInProgress)"
| "isClientStatus b ev = False"

definition starprnt :: string where
  "starprnt = ''application/vnd.star.starprnt''"

definition png :: string where
  "png = ''image/png''"

definition PRINTER_MAC :: string where
  "PRINTER_MAC = ''00:00:00:00:00:00''"

text \<open>\<^verbatim>\<open>if (jobToken) newUrl.searchParams.append('token', jobToken)\<close>: an absent and an
  empty token are both falsy.\<close>

definition tokenParam :: "string option \<Rightarrow> string option" where
  "tokenParam tok = (case tok of None \<Rightarrow> None | Some t \<Rightarrow> if t = [] then None else Some t)"

section \<open>HTTP polling transport (\<^verbatim>\<open>runHttpPolling\<close>, src/unnamed/part_000)\<close>

text \<open>The collaborators of one loop iteration: what the server answers to each request of
  the iteration, the libraries, and the longest typed array that the engine allocates. A
  request function issues its request, which is recorded, and throws when the answer is
  not ok.\<close>

record httpEnv =
  postResponse :: "error + pollStatus"
  getResponse :: "string \<Rightarrow> error + byte list"
  deleteResponse :: "error option"
  rotateFn :: "imageData \<Rightarrow> imageData"
  encodeFn :: "imageData \<Rightarrow> error + byte list"
  decodeFn :: "byte list \<Rightarrow> error + imageData"
  writeFileSync :: "byte list \<Rightarrow> error option"
  typedArrayLimit :: nat

definition post :: "httpEnv \<Rightarrow> pollStatus io" where
  "post env = ([POST None], postResponse env)"

definition get :: "httpEnv \<Rightarrow> string option \<Rightarrow> string \<Rightarrow> byte list io" where
  "get env tok type = ([GET type PRINTER_MAC (tokenParam tok)], getResponse env type)"

definition delete' :: "httpEnv \<Rightarrow> string \<Rightarrow> string option \<Rightarrow> unit io" where
  "delete' env code tok =
     ([DELETE code PRINTER_MAC (tokenParam tok)],
      case deleteResponse env of None \<Rightarrow> Inr () | Some e \<Rightarrow> Inl e)"

text \<open>Lines 316 to 320: \<^verbatim>\<open>lodepng.decode\<close>, \<^verbatim>\<open>rotate\<close>, \<^verbatim>\<open>lodepng.encode\<close>.\<close>

definition rotatePng :: "httpEnv \<Rightarrow> byte list \<Rightarrow> error + byte list" where
  "rotatePng env pngData =
     (case decodeFn env pngData of
        Inl e \<Rightarrow> Inl e
      | Inr imageData \<Rightarrow> encodeFn env (rotateFn env imageData))"

text \<open>Lines 316 to 323, after the job body has been obtained: the result is the trace, the
  value of \<^verbatim>\<open>code\<close> and the exception, if any, with which the \<^verbatim>\<open>try\<close> block ends.\<close>

definition writeOut ::
  "httpEnv \<Rightarrow> bool \<Rightarrow> string \<Rightarrow> byte list \<Rightarrow> event list \<times> string \<times> error option" where
  "writeOut env rotate180 code pngData =
     (case (if rotate180 then rotatePng env pngData else Inr pngData) of
        Inl e \<Rightarrow> ([], code, Some e)
      | Inr pngData \<Rightarrow>
          (case writeFileSync env pngData of
             Some e \<Rightarrow> ([WriteFile pngData], code, Some e)
           | None \<Rightarrow> ([WriteFile pngData], ''200'', None)))"

text \<open>Lines 301 to 323: \<^verbatim>\<open>let code = '500'\<close> and the \<^verbatim>\<open>try\<close> block.
  \<^verbatim>\<open>status.mediaTypes && ...\<close> is skipped for an absent field (an array, even an empty
  one, is truthy); \<^verbatim>\<open>status.mediaTypes.includes\<close> on line 310 then throws a TypeError
  for the absent field.\<close>

definition serviceJob ::
  "httpEnv \<Rightarrow> bool \<Rightarrow> pollStatus \<Rightarrow> event list \<times> string \<times> error option" where
  "serviceJob env rotate180 status =
     (let code = ''500'' in
      case mediaTypes status of
        None \<Rightarrow> ([], code, Some TypeError)
      | Some mts \<Rightarrow>
          if \<not> (starprnt \<in> set mts \<or> png \<in> set mts)
          then ([], ''510'', Some (UnsupportedMediaTypes mts))
          else if starprnt \<in> set mts then
            (case get env (jobToken status) starprnt of
               (tr, Inl e) \<Rightarrow> (tr, code, Some e)
             | (tr, Inr buf) \<Rightarrow>
                 (case convertStarprntToPng (typedArrayLimit env) (rotateFn env) (encodeFn env)
                         buf False of
                    Inl e \<Rightarrow> (tr, code, Some e)
                  | Inr pngData \<Rightarrow>
                      (case writeOut env rotate180 code pngData of
                         (tr', r) \<Rightarrow> (tr @ tr', r))))
          else
            (case get env (jobToken status) png of
               (tr, Inl e) \<Rightarrow> (tr, code, Some e)
             | (tr, Inr pngData) \<Rightarrow>
                 (case writeOut env rotate180 code pngData of
                    (tr', r) \<Rightarrow> (tr @ tr', r))))"

text \<open>The value of \<^verbatim>\<open>code\<close> when the \<^verbatim>\<open>finally\<close> block of line 324 is entered, and
  the exception pending there.\<close>

definition finalCode :: "httpEnv \<Rightarrow> bool \<Rightarrow> pollStatus \<Rightarrow> string" where
  "finalCode env rotate180 status = fst (snd (serviceJob env rotate180 status))"

definition pendingException :: "httpEnv \<Rightarrow> bool \<Rightarrow> pollStatus \<Rightarrow> error option" where
  "pendingException env rotate180 status = snd (snd (serviceJob env rotate180 status))"

text \<open>Lines 301 to 326: the \<^verbatim>\<open>try\<close> block and its \<^verbatim>\<open>finally\<close>. An exception of
  \<^verbatim>\<open>delete_\<close> replaces the one of the \<^verbatim>\<open>try\<close> block.\<close>

definition serviceAndAck :: "httpEnv \<Rightarrow> bool \<Rightarrow> pollStatus \<Rightarrow> unit io" where
  "serviceAndAck env rotate180 status =
     (case serviceJob env rotate180 status of
        (tr, code, exn) \<Rightarrow>
          (case delete' env code (jobToken status) of
             (tr', Inl e) \<Rightarrow> (tr @ tr', Inl e)
           | (tr', Inr u) \<Rightarrow>
               (tr @ tr', case exn of Some e \<Rightarrow> Inl e | None \<Rightarrow> Inr ())))"

text \<open>Lines 293 to 330: one iteration of \<^verbatim>\<open>while (true)\<close>. Every exception ends in the
  \<^verbatim>\<open>catch\<close>, which logs and sleeps; then the loop polls again.\<close>

definition pollIteration :: "httpEnv \<Rightarrow> int \<Rightarrow> bool \<Rightarrow> event list" where
  "pollIteration env delay rotate180 =
     (case post env of
        (tr, Inl e) \<Rightarrow> tr @ [LogError e, Sleep delay]
      | (tr, Inr status) \<Rightarrow>
          if \<not> jobReady status then tr @ [Sleep delay]
          else
            (case serviceAndAck env rotate180 status of
               (tr', Inl e) \<Rightarrow> tr @ tr' @ [LogError e, Sleep delay]
             | (tr', Inr u) \<Rightarrow> tr @ tr'))"

text \<open>Lines 289 to 332. The loop has no exit: the function never returns, and what can be
  observed is its trace. The list holds the collaborators of the iterations run so far.\<close>

fun runHttpPolling :: "httpEnv list \<Rightarrow> int \<Rightarrow> bool \<Rightarrow> event list" where
  "runHttpPolling [] delay rotate180 = []"
| "runHttpPolling (env # envs) delay rotate180 =
     pollIteration env delay rotate180 @ runHttpPolling envs delay rotate180"


section \<open>HTTP polling loop of src/index.js (plain-text jobs, client actions)\<close>

text \<open>Line 114: \<^verbatim>\<open>Number.parseInt(args['--poll-interval']) * 1000\<close>, for an interval that
  parses as an integer.\<close>

definition pollDelay :: "int \<Rightarrow> int" where
  "pollDelay seconds = seconds * 1000"

definition INDEX_MAC :: string where
  "INDEX_MAC = ''00:11:62:00:00:00''"

record indexEnv =
  statusResponse :: "error + pollStatus"
  followUpResponse :: "error option"
  jobResponse :: "error + byte list"
  ackResponse :: "error option"
  writeText :: "byte list \<Rightarrow> error option"

text \<open>Lines 132 to 145: the \<^verbatim>\<open>switch\<close> on the request name; \<open>None\<close> when no
  \<^verbatim>\<open>case\<close> matches and nothing is pushed.\<close>

definition answerFor :: "int \<Rightarrow> string \<Rightarrow> (string \<times> jsval) option" where
  "answerFor delay req =
     (if req = ''GetPollInterval'' then Some (''GetPollInterval'', Num delay)
      else if req = ''Encodings'' then Some (''Encodings'', Str ''text/plain'')
      else if req = ''ClientType'' then Some (''ClientType'', Str ''Star Printer Emulator'')
      else if req = ''ClientVersion'' then Some (''ClientVersion'', Str ''HIX'')
      else None)"

text \<open>Lines 130 to 147: the \<^verbatim>\<open>for\<close> loop over \<^verbatim>\<open>status.clientAction\<close>; \<open>acc\<close> is
  \<^verbatim>\<open>data.clientAction\<close>, to which answers are pushed.\<close>

function clientActionLoop ::
  "int \<Rightarrow> actionEntry list \<Rightarrow> nat \<Rightarrow> (string \<times> jsval) list \<Rightarrow> (string \<times> jsval) list" where
  "clientActionLoop delay actions i acc =
     (if i < length actions then
        (case request (actions ! i) of
           None \<Rightarrow> clientActionLoop delay actions (i + 1) acc
         | Some req \<Rightarrow>
             (case answerFor delay req of
                None \<Rightarrow> clientActionLoop delay actions (i + 1) acc
              | Some a \<Rightarrow> clientActionLoop delay actions (i + 1) (acc @ [a])))
      else acc)"
  by pat_completeness auto
termination
  by (relation "measure (\<lambda>(delay, actions, i, acc). length actions - i)") auto

declare clientActionLoop.simps [simp del]

text \<open>The answers as the specification words them, for comparison with the loop: each
  recognised request is answered, in request order (\<open>GetPollInterval\<close> with the interval
  in milliseconds, \<open>Encodings\<close> with the supported media type, \<open>ClientType\<close> and
  \<open>ClientVersion\<close> with fixed strings), and any other entry is skipped.\<close>

fun spec_clientAnswers :: "int \<Rightarrow> actionEntry list \<Rightarrow> (string \<times> jsval) list" where
  "spec_clientAnswers ms [] = []"
| "spec_clientAnswers ms (a # rest) =
     (if request a = Some ''GetPollInterval''
        then (''GetPollInterval'', Num ms) # spec_clientAnswers ms rest
      else if request a = Some ''Encodings''
        then (''Encodings'', Str ''text/plain'') # spec_clientAnswers ms rest
      else if request a = Some ''ClientType''
        then (''ClientType'', Str ''Star Printer Emulator'') # spec_clientAnswers ms rest
      else if request a = Some ''ClientVersion''
        then (''ClientVersion'', Str ''HIX'') # spec_clientAnswers ms rest
      else spec_clientAnswers ms rest)"

text \<open>Lines 127 to 152: the branch for \<^verbatim>\<open>!status.jobReady\<close>. The follow-up POST is sent
  when \<^verbatim>\<open>clientAction\<close> is a list and not empty. For \<^verbatim>\<open>null\<close> the test of line 128
  passes \<^verbatim>\<open>typeof\<close> and throws a TypeError on \<^verbatim>\<open>null.length\<close>.\<close>

definition idleBranch :: "indexEnv \<Rightarrow> int \<Rightarrow> pollStatus \<Rightarrow> unit io" where
  "idleBranch env delay status =
     (case clientAction status of
        Absent \<Rightarrow> ([Sleep delay], Inr ())
      | Null \<Rightarrow> ([], Inl TypeError)
      | Present actions \<Rightarrow>
          if length actions > 0 then
            (case followUpResponse env of
               Some e \<Rightarrow> ([POST (Some (clientActionLoop delay actions 0 []))], Inl e)
             | None \<Rightarrow> ([POST (Some (clientActionLoop delay actions 0 [])), Sleep delay], Inr ()))
          else ([Sleep delay], Inr ()))"

text \<open>Lines 154 to 167: the job branch, \<^verbatim>\<open>try\<close> and \<^verbatim>\<open>finally\<close>.\<close>

definition index_serviceJob :: "indexEnv \<Rightarrow> pollStatus \<Rightarrow> event list \<times> string \<times> error option" where
  "index_serviceJob env status =
     (let code = ''500'' in
      if (case mediaTypes status of None \<Rightarrow> False | Some mts \<Rightarrow> ''text/plain'' \<notin> set mts)
      then ([], ''510'', Some (UnsupportedMediaTypes (case mediaTypes status of None \<Rightarrow> [] | Some mts \<Rightarrow> mts)))
      else
        (case jobResponse env of
           Inl e \<Rightarrow> ([GET ''text/plain'' INDEX_MAC (tokenParam (jobToken status))], code, Some e)
         | Inr body \<Rightarrow>
             (case writeText env body of
                Some e \<Rightarrow>
                  ([GET ''text/plain'' INDEX_MAC (tokenParam (jobToken status)), WriteFile body],
                   code, Some e)
              | None \<Rightarrow>
                  ([GET ''text/plain'' INDEX_MAC (tokenParam (jobToken status)), WriteFile body],
                   ''200'', None))))"

definition index_finalCode :: "indexEnv \<Rightarrow> pollStatus \<Rightarrow> string" where
  "index_finalCode env status = fst (snd (index_serviceJob env status))"

definition index_pendingException :: "indexEnv \<Rightarrow> pollStatus \<Rightarrow> error option" where
  "index_pendingException env status = snd (snd (index_serviceJob env status))"

definition index_serviceAndAck :: "indexEnv \<Rightarrow> pollStatus \<Rightarrow> unit io" where
  "index_serviceAndAck env status =
     (case index_serviceJob env status of
        (tr, code, exn) \<Rightarrow>
          (case ackResponse env of
             Some e \<Rightarrow> (tr @ [DELETE code INDEX_MAC (tokenParam (jobToken status))], Inl e)
           | None \<Rightarrow>
               (tr @ [DELETE code INDEX_MAC (tokenParam (jobToken status))],
                case exn of Some e \<Rightarrow> Inl e | None \<Rightarrow> Inr ())))"

text \<open>Lines 124 to 171: one iteration of \<^verbatim>\<open>while (true)\<close>.\<close>

definition index_iteration :: "indexEnv \<Rightarrow> int \<Rightarrow> event list" where
  "index_iteration env delay =
     (case statusResponse env of
        Inl e \<Rightarrow> [POST None, LogError e, Sleep delay]
      | Inr status \<Rightarrow>
          (case (if \<not> jobReady status then idleBranch env delay status
                 else index_serviceAndAck env status) of
             (tr, Inl e) \<Rightarrow> POST None # tr @ [LogError e, Sleep delay]
           | (tr, Inr u) \<Rightarrow> POST None # tr))"

section \<open>MQTT push transport (\<^verbatim>\<open>runMqttMode\<close> and its handlers, src/unnamed/part_000)\<close>

text \<open>The collaborators of one print job: the outcome of each of the three
  \<^verbatim>\<open>publishAsync\<close> calls (\<open>None\<close>: resolved), \<^verbatim>\<open>Buffer.from(_, 'base64')\<close>, the
  libraries, and the longest typed array that the engine allocates.\<close>

record mqttEnv =
  publishStarted :: "error option"
  publishResult :: "error option"
  publishFinished :: "error option"
  fromBase64 :: "string \<Rightarrow> byte list"
  mqttRotate :: "imageData \<Rightarrow> imageData"
  mqttEncode :: "imageData \<Rightarrow> error + byte list"
  mqttWrite :: "byte list \<Rightarrow> error option"
  mqttArrayLimit :: nat

definition serverTopicPrefix :: string where
  "serverTopicPrefix = ''star/cloudprnt/to-server/'' @ PRINTER_MAC"

definition deviceTopic :: string where
  "deviceTopic = ''star/cloudprnt/to-device/'' @ PRINTER_MAC @ ''/#''"

definition statusTopic :: string where
  "statusTopic = serverTopicPrefix @ ''/client-status''"

definition resultTopic :: string where
  "resultTopic = serverTopicPrefix @ ''/print-result''"

text \<open>\<^verbatim>\<open>statusCode.startsWith('200')\<close>.\<close>

definition startsWith :: "string \<Rightarrow> string \<Rightarrow> bool" where
  "startsWith s p \<longleftrightarrow> take (length p) s = p"

text \<open>Lines 443 to 465: \<^verbatim>\<open>let statusCode = '500'\<close> and the \<^verbatim>\<open>try\<close> block; the result
  is the trace, the value of \<^verbatim>\<open>statusCode\<close> and the exception with which the block ends.
  \<^verbatim>\<open>Buffer.from(undefined, 'base64')\<close> throws a TypeError.\<close>

definition printJobBody ::
  "mqttEnv \<Rightarrow> bool \<Rightarrow> mqttPayload \<Rightarrow> event list \<times> string \<times> error option" where
  "printJobBody env rotate180 payload =
     (let statusCode = ''500'' in
      case publishStarted env of
        Some e \<Rightarrow> ([PUBLISH statusTopic (ClientStatus True)], statusCode, Some e)
      | None \<Rightarrow>
          if jobType payload \<noteq> Some ''raw''
          then ([PUBLISH statusTopic (ClientStatus True)], ''500'',
                Some (UnsupportedJobType (jobType payload)))
          else if (case mediaTypes payload of
                     None \<Rightarrow> True
                   | Some mts \<Rightarrow> length mts \<noteq> 1 \<or> starprnt \<notin> set mts)
          then ([PUBLISH statusTopic (ClientStatus True)], ''510'',
                Some (UnsupportedMediaTypes (case mediaTypes payload of None \<Rightarrow> [] | Some mts \<Rightarrow> mts)))
          else
            (case printData payload of
               None \<Rightarrow> ([PUBLISH statusTopic (ClientStatus True)], statusCode, Some TypeError)
             | Some b64 \<Rightarrow>
                 (case convertStarprntToPng (mqttArrayLimit env) (mqttRotate env)
                         (mqttEncode env) (fromBase64 env b64) rotate180 of
                    Inl e \<Rightarrow> ([PUBLISH statusTopic (ClientStatus True)], statusCode, Some e)
                  | Inr pngData \<Rightarrow>
                      (case mqttWrite env pngData of
                         Some e \<Rightarrow>
                           ([PUBLISH statusTopic (ClientStatus True), WriteFile pngData],
                            statusCode, Some e)
                       | None \<Rightarrow>
                           ([PUBLISH statusTopic (ClientStatus True), WriteFile pngData],
                            ''200'', None)))))"

text \<open>The value of \<^verbatim>\<open>statusCode\<close> when the \<^verbatim>\<open>finally\<close> block of line 466 is
  entered.\<close>

definition jobStatusCode :: "mqttEnv \<Rightarrow> bool \<Rightarrow> mqttPayload \<Rightarrow> string" where
  "jobStatusCode env rotate180 payload = fst (snd (printJobBody env rotate180 payload))"

text \<open>Lines 440 to 477. In the \<^verbatim>\<open>finally\<close> block the second \<^verbatim>\<open>await\<close> is reached only
  when the first \<^verbatim>\<open>publishAsync\<close> has resolved.\<close>

definition handlePrintJob :: "mqttEnv \<Rightarrow> bool \<Rightarrow> mqttPayload \<Rightarrow> unit io" where
  "handlePrintJob env rotate180 payload =
     (case printJobBody env rotate180 payload of
        (tr, statusCode, exn) \<Rightarrow>
          (case publishResult env of
             Some e \<Rightarrow>
               (tr @ [PUBLISH resultTopic
                        (PrintResult (jobToken payload) (startsWith statusCode ''200'') statusCode)],
                Inl e)
           | None \<Rightarrow>
               (case publishFinished env of
                  Some e \<Rightarrow>
                    (tr @ [PUBLISH resultTopic
                             (PrintResult (jobToken payload) (startsWith statusCode ''200'') statusCode),
                           PUBLISH statusTopic (ClientStatus False)],
                     Inl e)
                | None \<Rightarrow>
                    (tr @ [PUBLISH resultTopic
                             (PrintResult (jobToken payload) (startsWith statusCode ''200'') statusCode),
                           PUBLISH statusTopic (ClientStatus False)],
                     case exn of Some e \<Rightarrow> Inl e | None \<Rightarrow> Inr ()))))"

text \<open>Lines 422 to 430.\<close>

definition handleMqttMessage :: "mqttEnv \<Rightarrow> bool \<Rightarrow> mqttPayload \<Rightarrow> unit io" where
  "handleMqttMessage env rotate180 payload =
     (if title payload = Some ''print-job'' then handlePrintJob env rotate180 payload
      else ([], Inl (UnsupportedMessageType (title payload))))"

text \<open>What the MQTT client reports to the handlers registered on lines 374 to 410:
  \<open>Connect r\<close> is a \<^verbatim>\<open>connect\<close> event whose \<^verbatim>\<open>subscribe\<close> callback receives \<open>r\<close>;
  \<open>Message p env\<close> a message whose text parses to \<open>p\<close> (or fails to parse), handled with
  the collaborators \<open>env\<close>; \<open>ClientError\<close> an \<^verbatim>\<open>error\<close> event; \<open>Close\<close> a \<^verbatim>\<open>close\<close>
  event, a connection that went down.\<close>

datatype clientEvent =
    Connect "error option"
  | Message "error + mqttPayload" mqttEnv
  | ClientError error
  | Close

text \<open>The promise returned by \<^verbatim>\<open>runMqttMode\<close>: \<^verbatim>\<open>resolve\<close> is never called, and a
  promise that is settled stays as it is.\<close>

datatype promise = Pending | Rejected error

text \<open>The two events on which a handler calls \<^verbatim>\<open>reject\<close>: an \<^verbatim>\<open>error\<close> event, and a
  \<^verbatim>\<open>connect\<close> event whose subscription fails.\<close>

fun rejects :: "clientEvent \<Rightarrow> bool" where
  "rejects (ClientError e) = True"
| "rejects (Connect (Some e)) = True"
| "rejects ev = False"

definition reject :: "error \<Rightarrow> promise \<Rightarrow> promise" where
  "reject e p = (case p of Pending \<Rightarrow> Rejected e | Rejected e' \<Rightarrow> Rejected e')"

text \<open>One event, handled: the trace it adds and the promise afterwards. The \<^verbatim>\<open>message\<close>
  handler catches and logs every exception; the \<^verbatim>\<open>close\<close> handler only writes to the
  console.\<close>

fun handleEvent :: "bool \<Rightarrow> clientEvent \<Rightarrow> promise \<Rightarrow> event list \<times> promise" where
  "handleEvent rotate180 (Connect r) p =
     ([SUBSCRIBE deviceTopic, PUBLISH statusTopic (ClientStatus False)],
      case r of Some e \<Rightarrow> reject e p | None \<Rightarrow> p)"
| "handleEvent rotate180 (Message parsed env) p =
     (case parsed of
        Inl e \<Rightarrow> ([LogError e], p)
      | Inr payload \<Rightarrow>
          (case handleMqttMessage env rotate180 payload of
             (tr, Inl e) \<Rightarrow> (tr @ [LogError e], p)
           | (tr, Inr u) \<Rightarrow> (tr, p)))"
| "handleEvent rotate180 (ClientError e) p = ([LogError e], reject e p)"
| "handleEvent rotate180 Close p = ([], p)"

fun handleEvents :: "bool \<Rightarrow> clientEvent list \<Rightarrow> promise \<Rightarrow> event list \<times> promise" where
  "handleEvents rotate180 [] p = ([], p)"
| "handleEvents rotate180 (ev # evs) p =
     (case handleEvent rotate180 ev p of
        (tr, p') \<Rightarrow> (case handleEvents rotate180 evs p' of (tr', p'') \<Rightarrow> (tr @ tr', p'')))"

record mqttConnectionSetting =
  hostName :: string
  portNumber :: "nat option"
  useTls :: bool
  authenticationSetting :: "(string \<times> string) option"

text \<open>Lines 340 to 412. With \<^verbatim>\<open>mqttSettings\<close> undefined, line 343 throws a TypeError and
  the promise of the async function is rejected before any handler is registered.\<close>

definition runMqttMode ::
  "mqttConnectionSetting option \<Rightarrow> bool \<Rightarrow> clientEvent list \<Rightarrow> event list \<times> promise" where
  "runMqttMode mqttSettings rotate180 evs =
     (case mqttSettings of
        None \<Rightarrow> ([], Rejected TypeError)
      | Some s \<Rightarrow> handleEvents rotate180 evs Pending)"

section \<open>Capability negotiation (\<^verbatim>\<open>getServerSettings\<close>, src/unnamed/part_000)\<close>

record settingForMQTT =
  useTriggerPOST :: "bool option"
  mqttConnectionSetting :: "mqttConnectionSetting option"

record settingsJson =
  serverSupportProtocol :: "string list option"
  settingForMQTT :: "settingForMQTT option"

record serverSettings =
  useMQTT :: bool
  mqttSettings :: "mqttConnectionSetting option"

text \<open>Lines 210 to 229. \<^verbatim>\<open>useTriggerPOST === true\<close> holds for the boolean true only.\<close>

definition parseServerSettings :: "settingsJson \<Rightarrow> error + serverSettings" where
  "parseServerSettings settings =
     (let protocols = (case serverSupportProtocol settings of None \<Rightarrow> [] | Some ps \<Rightarrow> ps);
          forMQTT = (case settingForMQTT settings of
                       None \<Rightarrow> \<lparr>useTriggerPOST = None, mqttConnectionSetting = None\<rparr>
                     | Some m \<Rightarrow> m)
      in if ''MQTT'' \<notin> set protocols then Inr \<lparr>useMQTT = False, mqttSettings = None\<rparr>
         else if useTriggerPOST forMQTT = Some True then Inl TriggerPostUnsupported
         else Inr \<lparr>useMQTT = True, mqttSettings = mqttConnectionSetting forMQTT\<rparr>)"

text \<open>The outcome of one \<^verbatim>\<open>fetch\<close> of the settings URL: a rejection (network error or
  timeout), or a response with its status and its body as \<^verbatim>\<open>response.json()\<close> reads it
  (\<open>Inl\<close>: not JSON).\<close>

datatype fetchOutcome =
    FetchRejected error
  | Response nat "error + settingsJson"

text \<open>How the body of the \<^verbatim>\<open>try\<close> block of lines 169 to 194 ends.\<close>

datatype attemptOutcome =
    Returned serverSettings
  | Continued
  | Thrown error

definition attemptBody :: "fetchOutcome \<Rightarrow> nat \<Rightarrow> event list \<times> attemptOutcome" where
  "attemptBody outcome attempt =
     (case outcome of
        FetchRejected e \<Rightarrow> ([SETTINGS_GET], Thrown e)
      | Response status body \<Rightarrow>
          if status = 404 then ([SETTINGS_GET], Returned \<lparr>useMQTT = False, mqttSettings = None\<rparr>)
          else if status = 200 then
            (case body of
               Inl e \<Rightarrow> ([SETTINGS_GET], Thrown e)
             | Inr settings \<Rightarrow>
                 (case parseServerSettings settings of
                    Inl e \<Rightarrow> ([SETTINGS_GET], Thrown e)
                  | Inr r \<Rightarrow> ([SETTINGS_GET], Returned r)))
          else if status \<ge> 500 then
            (if attempt < 3 then ([SETTINGS_GET, Sleep 5000], Continued)
             else ([SETTINGS_GET], Thrown (ServerError status)))
          else ([SETTINGS_GET], Thrown (UnexpectedResponse status)))"

text \<open>Lines 168 to 203: the \<^verbatim>\<open>for\<close> loop with its \<^verbatim>\<open>try\<close> and \<^verbatim>\<open>catch\<close>. The
  \<^verbatim>\<open>catch\<close> receives every exception of the body, also the one that
  \<^verbatim>\<open>parseServerSettings\<close> throws. \<open>fetch n\<close> is the outcome of the \<open>n\<close>-th request.
  Falling out of the loop returns \<^verbatim>\<open>undefined\<close>, here \<open>Inr None\<close>.\<close>

function attemptLoop ::
  "(nat \<Rightarrow> fetchOutcome) \<Rightarrow> nat \<Rightarrow> event list \<times> (error + serverSettings option)" where
  "attemptLoop fetch attempt =
     (if attempt \<le> 3 then
        (case attemptBody (fetch attempt) attempt of
           (tr, Returned r) \<Rightarrow> (tr, Inr (Some r))
         | (tr, Continued) \<Rightarrow>
             (case attemptLoop fetch (attempt + 1) of (tr', r) \<Rightarrow> (tr @ tr', r))
         | (tr, Thrown e) \<Rightarrow>
             if attempt = 3 then (tr, Inl e)
             else (case attemptLoop fetch (attempt + 1) of (tr', r) \<Rightarrow> (tr @ [Sleep 5000] @ tr', r)))
      else ([], Inr None))"
  by pat_completeness auto
termination
  by (relation "measure (\<lambda>(fetch, attempt). 4 - attempt)") auto

declare attemptLoop.simps [simp del]

definition getServerSettings ::
  "(nat \<Rightarrow> fetchOutcome) \<Rightarrow> event list \<times> (error + serverSettings option)" where
  "getServerSettings fetch = attemptLoop fetch 1"

section \<open>Session orchestrator (top level of src/unnamed/part_000, lines 489 to 508)\<close>

datatype transport = MqttMode | HttpPolling

text \<open>Which transports the top level starts, in order, and how it ends, given the outcome of
  the negotiation and what the MQTT client reports, once the command line has been read
  (lines 480 to 487). \<^verbatim>\<open>await runMqttMode(...)\<close> continues
  only when the promise is rejected; \<^verbatim>\<open>runHttpPolling\<close> never returns. An error of the
  negotiation, or \<^verbatim>\<open>undefined\<close> settings, ends the process with exit code 1 and no
  transport.\<close>

definition orchestrate ::
  "(nat \<Rightarrow> fetchOutcome) \<Rightarrow> bool \<Rightarrow> clientEvent list \<Rightarrow> error + transport list" where
  "orchestrate fetch rotate180 evs =
     (case snd (getServerSettings fetch) of
        Inl e \<Rightarrow> Inl e
      | Inr None \<Rightarrow> Inl TypeError
      | Inr (Some serverSettings) \<Rightarrow>
          if useMQTT serverSettings then
            (case snd (runMqttMode (mqttSettings serverSettings) rotate180 evs) of
               Rejected e \<Rightarrow> Inr [MqttMode, HttpPolling]
             | Pending \<Rightarrow> Inr [MqttMode])
          else Inr [HttpPolling])"


section \<open>Example inputs\<close>

text \<open>Concrete servers and jobs, at which the theorems below are instantiated: a server
  that answers every request, libraries that never fail (the encoder returns the pixel
  array as it is), an engine that allocates typed arrays of up to \<open>2^32\<close> bytes, and a
  job with a token.\<close>

definition exampleRaster :: "byte list" where
  "exampleRaster = [0x1b, 0x1d, 0x53, 0x01, 1, 0, 1, 0, 0, 0x80]"

definition exampleStatus :: "string list option \<Rightarrow> pollStatus" where
  "exampleStatus mts =
     \<lparr>jobToken = Some ''job-1'', mediaTypes = mts, jobReady = True, clientAction = Absent\<rparr>"

definition exampleEnv :: "string list option \<Rightarrow> httpEnv" where
  "exampleEnv mts =
     \<lparr>postResponse = Inr (exampleStatus mts),
      getResponse = (\<lambda>type. Inr exampleRaster),
      deleteResponse = None,
      rotateFn = (\<lambda>img. img),
      encodeFn = (\<lambda>img. Inr (data img)),
      decodeFn = (\<lambda>bytes. Inr \<lparr>data = bytes, width = 0, height = 0\<rparr>),
      writeFileSync = (\<lambda>bytes. None),
      typedArrayLimit = 2 ^ 32\<rparr>"

text \<open>A status without a job, and a list of client actions: three recognised requests
  around an unknown one and an entry without a request, then a fourth recognised one.\<close>

definition idleStatus :: "actionEntry list field \<Rightarrow> pollStatus" where
  "idleStatus actions =
     \<lparr>jobToken = None, mediaTypes = None, jobReady = False, clientAction = actions\<rparr>"

definition exampleActions :: "actionEntry list" where
  "exampleActions =
     [\<lparr>request = Some ''ClientType''\<rparr>, \<lparr>request = Some ''SetID''\<rparr>, \<lparr>request = None\<rparr>,
      \<lparr>request = Some ''GetPollInterval''\<rparr>, \<lparr>request = Some ''Encodings''\<rparr>,
      \<lparr>request = Some ''ClientVersion''\<rparr>]"

definition exampleIndexEnv :: "pollStatus \<Rightarrow> indexEnv" where
  "exampleIndexEnv status =
     \<lparr>statusResponse = Inr status,
      followUpResponse = None,
      jobResponse = Inr [0x68, 0x69],
      ackResponse = None,
      writeText = (\<lambda>bytes. None)\<rparr>"

definition examplePayload :: "string option \<Rightarrow> string list option \<Rightarrow> mqttPayload" where
  "examplePayload jt mts =
     \<lparr>jobToken = Some ''job-1'', mediaTypes = mts, title = Some ''print-job'', jobType = jt,
      printData = Some ''Gx1TAQEAAQAAgA==''\<rparr>"

text \<open>An MQTT client whose three publishes end as given.\<close>

definition exampleMqttEnv :: "error option \<Rightarrow> error option \<Rightarrow> error option \<Rightarrow> mqttEnv" where
  "exampleMqttEnv started result finished =
     \<lparr>publishStarted = started, publishResult = result, publishFinished = finished,
      fromBase64 = (\<lambda>text. exampleRaster),
      mqttRotate = (\<lambda>img. img),
      mqttEncode = (\<lambda>img. Inr (data img)),
      mqttWrite = (\<lambda>bytes. None),
      mqttArrayLimit = 2 ^ 32\<rparr>"

definition exampleConnection :: mqttConnectionSetting where
  "exampleConnection =
     \<lparr>hostName = ''broker.example'', portNumber = None, useTls = False,
      authenticationSetting = None\<rparr>"

text \<open>Settings bodies: full MQTT, and MQTT with Trigger POST requested.\<close>

definition mqttBody :: "bool \<Rightarrow> settingsJson" where
  "mqttBody triggerPOST =
     \<lparr>serverSupportProtocol = Some [''HTTP'', ''MQTT''],
      settingForMQTT = Some \<lparr>useTriggerPOST = Some triggerPOST,
                              mqttConnectionSetting = Some exampleConnection\<rparr>\<rparr>"

text \<open>Settings endpoints: one that always offers full MQTT; one that always requests
  Trigger POST; one that requests Trigger POST on the first request and answers 404
  afterwards.\<close>

definition fetchMqtt :: "nat \<Rightarrow> fetchOutcome" where
  "fetchMqtt attempt = Response 200 (Inr (mqttBody False))"

definition fetchTriggerPost :: "nat \<Rightarrow> fetchOutcome" where
  "fetchTriggerPost attempt = Response 200 (Inr (mqttBody True))"

definition fetchTriggerPostThen404 :: "nat \<Rightarrow> fetchOutcome" where
  "fetchTriggerPostThen404 attempt =
     (if attempt = 1 then Response 200 (Inr (mqttBody True)) else Response 404 (Inl (External ''no body'')))"


section \<open>Properties of the raster decoder\<close>

subsection \<open>The pixel loop\<close>

lemma length_fill: "length (fst (fill buf outPtr inPtr pixelData)) = length pixelData"
proof (induction buf outPtr inPtr pixelData rule: fill.induct)
  case (1 buf outPtr inPtr pixelData)
  show ?case
  proof (cases "outPtr < length pixelData")
    case True
    with "1.IH" [OF True refl refl refl refl refl] show ?thesis
      by (subst fill.simps) (simp add: Let_def)
  next
    case False
    then show ?thesis by (subst fill.simps) simp
  qed
qed

lemma fill_iterations:
  "snd (fill buf outPtr inPtr pixelData) = inPtr + (length pixelData - outPtr + 3) div 4"
proof (induction buf outPtr inPtr pixelData rule: fill.induct)
  case (1 buf outPtr inPtr pixelData)
  show ?case
  proof (cases "outPtr < length pixelData")
    case True
    have "snd (fill buf outPtr inPtr pixelData)
          = inPtr + 1 + (length pixelData - (outPtr + 4) + 3) div 4"
      using "1.IH" [OF True refl refl refl refl refl] True
      by (subst fill.simps) (simp add: Let_def)
    also have "\<dots> = inPtr + (length pixelData - outPtr + 3) div 4"
    proof (cases "outPtr + 4 \<le> length pixelData")
      case True
      then obtain d where d: "length pixelData = outPtr + 4 + d"
        using le_iff_add by blast
      have "(d + 3 + 4) div 4 = (d + 3) div 4 + 1" by simp
      then show ?thesis by (simp add: d add.commute add.left_commute)
    next
      case False
      with \<open>outPtr < length pixelData\<close>
      consider "length pixelData = outPtr + 1" | "length pixelData = outPtr + 2"
        | "length pixelData = outPtr + 3" by linarith
      then show ?thesis by cases simp_all
    qed
    finally show ?thesis .
  next
    case False
    then show ?thesis by (subst fill.simps) simp
  qed
qed

lemma fill_below:
  "j < outPtr \<Longrightarrow> fst (fill buf outPtr inPtr pixelData) ! j = pixelData ! j"
proof (induction buf outPtr inPtr pixelData rule: fill.induct)
  case (1 buf outPtr inPtr pixelData)
  show ?case
  proof (cases "outPtr < length pixelData")
    case True
    have "j < outPtr + 4" using "1.prems" by simp
    from "1.IH" [OF True refl refl refl refl refl this] "1.prems" True show ?thesis
      by (subst fill.simps) (simp add: Let_def)
  next
    case False
    then show ?thesis by (subst fill.simps) simp
  qed
qed

lemma fill_from:
  "outPtr \<le> j \<Longrightarrow> j < length pixelData \<Longrightarrow>
   fst (fill buf outPtr inPtr pixelData) ! j =
     (if (j - outPtr) mod 4 = 3 then 255 else pixelOf buf (inPtr + (j - outPtr) div 4))"
proof (induction buf outPtr inPtr pixelData rule: fill.induct)
  case (1 buf outPtr inPtr pixelData)
  from "1.prems" have lt: "outPtr < length pixelData" by simp
  define pd where "pd = pixelData[outPtr := pixelOf buf inPtr, outPtr + 1 := pixelOf buf inPtr,
     outPtr + 2 := pixelOf buf inPtr, outPtr + 3 := 255]"
  have unfold: "fill buf outPtr inPtr pixelData = fill buf (outPtr + 4) (inPtr + 1) pd"
    using lt by (subst fill.simps) (simp add: Let_def pd_def)
  have len: "length pd = length pixelData" by (simp add: pd_def)
  show ?case
  proof (cases "outPtr + 4 \<le> j")
    case True
    then obtain d where d: "j = outPtr + 4 + d"
      using le_iff_add by blast
    have ih: "fst (fill buf (outPtr + 4) (inPtr + 1) pd) ! j =
        (if (j - (outPtr + 4)) mod 4 = 3 then 255
         else pixelOf buf (inPtr + 1 + (j - (outPtr + 4)) div 4))"
      using "1.IH" [OF lt refl refl refl refl refl True] "1.prems" len
      by (simp only: pd_def)
    have e1: "j - (outPtr + 4) = d" and e2: "j - outPtr = d + 4"
      by (simp_all add: d)
    have e3: "(d + 4) mod 4 = d mod 4" and e4: "(d + 4) div 4 = d div 4 + 1"
      by simp_all
    show ?thesis
      unfolding unfold ih e1 e2 e3 e4 by simp
  next
    case False
    then have jlt: "j < outPtr + 4" by simp
    have "fst (fill buf (outPtr + 4) (inPtr + 1) pd) ! j = pd ! j"
      by (rule fill_below [OF jlt])
    moreover have "pd ! j = (if (j - outPtr) mod 4 = 3 then 255 else pixelOf buf inPtr)"
    proof -
      from jlt "1.prems" consider "j = outPtr" | "j = outPtr + 1" | "j = outPtr + 2" | "j = outPtr + 3"
        by linarith
      then show ?thesis
        using "1.prems" by cases (simp_all add: pd_def)
    qed
    moreover have "(j - outPtr) div 4 = 0" using jlt "1.prems" by simp
    ultimately show ?thesis by (simp add: unfold)
  qed
qed

lemma toInt32_small: "0 \<le> n \<Longrightarrow> n < 2 ^ 31 \<Longrightarrow> toInt32 n = n"
  by (simp add: toInt32_def Let_def)

lemma pixelOf_in_range:
  assumes "inPtr div 8 < length buf" "inPtr div 8 < 2 ^ 31"
  shows "pixelOf buf inPtr = (if bit (buf ! (inPtr div 8)) (7 - inPtr mod 8) then 0 else 255)"
proof -
  have "int inPtr div 8 = int (inPtr div 8)" by (simp add: zdiv_int)
  moreover have "toInt32 (int (inPtr div 8)) = int (inPtr div 8)"
    using assms(2) by (intro toInt32_small) simp_all
  ultimately have "byteAt buf (toInt32 (int inPtr div 8)) = Some (buf ! (inPtr div 8))"
    using assms(1) by (simp add: byteAt_def)
  moreover have "(drop_bit n (uint w) AND 1 \<noteq> 0) = bit w n" for n and w :: byte
  proof -
    have "bit w n = bit (uint w) n" by (auto simp add: bit_uint_iff dest: bit_imp_le_length)
    also have "\<dots> = odd (drop_bit n (uint w))" by (rule bit_iff_odd_drop_bit)
    also have "\<dots> = (drop_bit n (uint w) AND 1 \<noteq> 0)" by (simp add: and_one_eq odd_iff_mod_2_eq_one)
    finally show ?thesis by simp
  qed
  ultimately show ?thesis by (simp add: pixelOf_def numOf_def)
qed

lemma pixelOf_past_end:
  assumes "length buf \<le> inPtr div 8" "inPtr div 8 < 2 ^ 32"
  shows "pixelOf buf inPtr = 255"
proof -
  have "int inPtr div 8 = int (inPtr div 8)" by (simp add: zdiv_int)
  moreover have "byteAt buf (toInt32 (int (inPtr div 8))) = None"
    using assms by (simp add: toInt32_def Let_def byteAt_def)
  ultimately show ?thesis by (simp add: pixelOf_def numOf_def)
qed

lemma header_ok:
  assumes "8 < length buf" "buf ! 0 = 0x1b" "buf ! 1 = 0x1d" "buf ! 2 = 0x53" "buf ! 3 = 0x01"
    "buf ! 8 = 0x00"
  shows "\<not> headerMismatch buf"
  using assms by (auto simp add: headerMismatch_def byteAt_def)

lemma decodeRaster_ok:
  assumes "\<not> headerMismatch buf"
    and "h = unat (buf ! 6) + push_bit 8 (unat (buf ! 7))"
    and "w = (unat (buf ! 4) + push_bit 8 (unat (buf ! 5))) * 8"
    and "w * h * 4 \<le> maxLength"
  shows "decodeRaster maxLength buf =
    Inr \<lparr>data = fst (fill buf 0 72 (replicate (w * h * 4) 0)), width = w, height = h\<rparr>"
  unfolding decodeRaster_def Let_def assms(2) [symmetric] assms(3) [symmetric]
  using assms(1,4) by simp

lemma decodeRaster_refused:
  assumes "\<not> headerMismatch buf"
    and "h = unat (buf ! 6) + push_bit 8 (unat (buf ! 7))"
    and "w = (unat (buf ! 4) + push_bit 8 (unat (buf ! 5))) * 8"
    and "maxLength < w * h * 4"
  shows "decodeRaster maxLength buf = Inl RangeError"
  unfolding decodeRaster_def Let_def assms(2) [symmetric] assms(3) [symmetric]
  using assms(1,4) by simp

lemma pixelOf_wrapped:
  assumes "2 ^ 31 \<le> inPtr div 8" "inPtr div 8 < 2 ^ 32"
  shows "pixelOf buf inPtr = 255"
proof -
  have "int inPtr div 8 = int (inPtr div 8)" by (simp add: zdiv_int)
  moreover have "byteAt buf (toInt32 (int (inPtr div 8))) = None"
    using assms by (simp add: toInt32_def Let_def byteAt_def)
  ultimately show ?thesis by (simp add: pixelOf_def numOf_def)
qed

lemma decoded_pixel:
  assumes "i < w * h"
  shows "fst (fill buf 0 72 (replicate (w * h * 4) 0)) ! (4 * i) = pixelOf buf (72 + i)"
    and "fst (fill buf 0 72 (replicate (w * h * 4) 0)) ! (4 * i + 1) = pixelOf buf (72 + i)"
    and "fst (fill buf 0 72 (replicate (w * h * 4) 0)) ! (4 * i + 2) = pixelOf buf (72 + i)"
    and "fst (fill buf 0 72 (replicate (w * h * 4) 0)) ! (4 * i + 3) = 255"
proof -
  have lt: "4 * i + 3 < length (replicate (w * h * 4) (0::byte))" using assms by simp
  have m: "(4 * i) mod 4 = 0" "(4 * i + 1) mod 4 = 1" "(4 * i + 2) mod 4 = 2" "(4 * i + 3) mod 4 = 3"
    by presburger+
  have d: "(4 * i) div 4 = i" "(4 * i + 1) div 4 = i" "(4 * i + 2) div 4 = i"
    by presburger+
  show "fst (fill buf 0 72 (replicate (w * h * 4) 0)) ! (4 * i) = pixelOf buf (72 + i)"
    using lt by (subst fill_from) (simp_all only: m d, simp_all)
  show "fst (fill buf 0 72 (replicate (w * h * 4) 0)) ! (4 * i + 1) = pixelOf buf (72 + i)"
    using lt by (subst fill_from) (simp_all only: m d diff_zero, simp_all)
  show "fst (fill buf 0 72 (replicate (w * h * 4) 0)) ! (4 * i + 2) = pixelOf buf (72 + i)"
    using lt by (subst fill_from) (simp_all only: m d diff_zero, simp_all)
  show "fst (fill buf 0 72 (replicate (w * h * 4) 0)) ! (4 * i + 3) = 255"
    using lt by (subst fill_from) (simp_all only: m d diff_zero, simp_all)
qed

lemma row_major_index: "x < w \<Longrightarrow> y < h \<Longrightarrow> y * w + x < w * (h::nat)"
proof -
  assume a: "x < w" "y < h"
  then have "y * w + x < y * w + w" by simp
  also have "\<dots> = (y + 1) * w" by simp
  also have "\<dots> \<le> h * w" using a by (intro mult_le_mono1) simp
  finally show ?thesis by (simp add: mult.commute)
qed

lemma header_sizes:
  fixes buf :: "byte list"
  assumes "w = (unat (buf ! 4) + push_bit 8 (unat (buf ! 5))) * 8"
    and "h = unat (buf ! 6) + push_bit 8 (unat (buf ! 7))"
  shows "w = 8 * (unat (buf ! 4) + 256 * unat (buf ! 5))"
    and "h = unat (buf ! 6) + 256 * unat (buf ! 7)"
    and "w * h \<le> 524280 * 65535"
proof -
  have b: "unat x \<le> 255" for x :: byte
  proof -
    have "unat x < 2 ^ LENGTH(8)" by (rule unsigned_less)
    then show ?thesis by simp
  qed
  show w: "w = 8 * (unat (buf ! 4) + 256 * unat (buf ! 5))"
    and h: "h = unat (buf ! 6) + 256 * unat (buf ! 7)"
    by (simp_all add: assms push_bit_eq_mult)
  have "w \<le> 524280" using b [of "buf ! 4"] b [of "buf ! 5"] by (simp add: w)
  moreover have "h \<le> 65535" using b [of "buf ! 6"] b [of "buf ! 7"] by (simp add: h)
  ultimately show "w * h \<le> 524280 * 65535" by (rule mult_le_mono)
qed

lemma decoded_rgba:
  assumes "img = \<lparr>data = fst (fill buf 0 72 (replicate (w * h * 4) 0)), width = w, height = h\<rparr>"
    and "x < w" and "y < h"
  shows "rgbaAt img x y =
    (pixelOf buf (72 + (y * w + x)), pixelOf buf (72 + (y * w + x)),
     pixelOf buf (72 + (y * w + x)), 255)"
proof -
  have i: "y * w + x < w * h" using assms(2,3) by (rule row_major_index)
  have sel: "width img = w" "data img = fst (fill buf 0 72 (replicate (w * h * 4) 0))"
    by (simp_all add: assms(1))
  show ?thesis
    unfolding rgbaAt_def Let_def sel by (simp only: decoded_pixel [OF i])
qed

lemma pixel_in_buffer:
  assumes "9 + i div 8 < length buf" and "9 + i div 8 < 2 ^ 31"
  shows "pixelOf buf (72 + i) = (if bit (buf ! (9 + i div 8)) (7 - i mod 8) then 0 else 255)"
proof -
  have k: "(72 + i) div 8 = 9 + i div 8"
    by simp
  have "72 + i = i + 9 * 8" by simp
  then have m: "(72 + i) mod 8 = i mod 8"
    by (simp only: mod_mult_self1)
  show ?thesis
    using pixelOf_in_range [of "72 + i" buf] assms by (simp only: k m)
qed

lemma pixel_beyond_buffer:
  assumes "length buf \<le> 9 + i div 8" and "i < 524280 * 65535"
  shows "pixelOf buf (72 + i) = 255"
proof -
  have k: "(72 + i) div 8 = 9 + i div 8"
    by simp
  from assms(2) have "9 + i div 8 < 2 ^ 32" by simp
  then show ?thesis
    using pixelOf_past_end [of buf "72 + i"] assms(1) by (simp only: k)
qed

lemma pixel_index_wrapped:
  assumes "2 ^ 31 \<le> 9 + i div 8" and "i < 524280 * 65535"
  shows "pixelOf buf (72 + i) = 255"
proof -
  have k: "(72 + i) div 8 = 9 + i div 8"
    by simp
  from assms(2) have "9 + i div 8 < 2 ^ 32" by simp
  then show ?thesis
    using pixelOf_wrapped [of "72 + i" buf] assms(1) by (simp only: k)
qed

subsection \<open>Decoding a well-formed buffer\<close>

text \<open>
  Claim C1, as stated, promises an image for every buffer whose header matches, and takes
  every pixel from its bit of the buffer. Neither holds without a condition. A header
  that declares 65535 row bytes and 65535 rows asks for a pixel array of 137434759200
  bytes, and on an engine that allocates at most \<open>2^32\<close> bytes \<^verbatim>\<open>new Uint8Array\<close> throws
  a RangeError. On an engine that does allocate that array, with a buffer that holds
  \<open>2^31\<close> bytes \<open>0xff\<close> after the header, pixel \<open>(262072, 32768)\<close> belongs to the first
  bit of byte \<open>2^31\<close>, which is set; but \<^verbatim>\<open>| 0\<close> turns the byte index into \<open>-2^31\<close>, the
  read is \<^verbatim>\<open>undefined\<close>, and the pixel is white.
\<close>

theorem decodeRaster_allocation_counterexample:
  "decodeRaster (2 ^ 32) [0x1b, 0x1d, 0x53, 0x01, 0xff, 0xff, 0xff, 0xff, 0] = Inl RangeError
   \<and> \<not> isl (decodeRaster (2 ^ 53 - 1)
              ([0x1b, 0x1d, 0x53, 0x01, 0xff, 0xff, 0xff, 0xff, 0] @ replicate (2 ^ 31) 0xff))
   \<and> bit (([0x1b, 0x1d, 0x53, 0x01, 0xff, 0xff, 0xff, 0xff, 0] @ replicate (2 ^ 31) 0xff)
            ! (2 ^ 31) :: byte) 7
   \<and> rgbaAt (projr (decodeRaster (2 ^ 53 - 1)
              ([0x1b, 0x1d, 0x53, 0x01, 0xff, 0xff, 0xff, 0xff, 0] @ replicate (2 ^ 31) 0xff)))
         262072 32768 = (255, 255, 255, 255)"
proof -
  let ?H = "[0x1b, 0x1d, 0x53, 0x01, 0xff, 0xff, 0xff, 0xff, 0] :: byte list"
  let ?B = "?H @ replicate (2 ^ 31) (0xff :: byte)"
  define img where
    "img = \<lparr>data = fst (fill ?B 0 72 (replicate (524280 * 65535 * 4) 0)),
            width = 524280, height = 65535\<rparr>"
  have refused: "decodeRaster (2 ^ 32) ?H = Inl RangeError"
    by (rule decodeRaster_refused [where w = 524280 and h = 65535])
      (simp_all add: headerMismatch_def byteAt_def push_bit_eq_mult)
  have hd: "\<not> headerMismatch ?B"
    by (simp add: headerMismatch_def byteAt_def)
  have dec: "decodeRaster (2 ^ 53 - 1) ?B = Inr img"
    unfolding img_def
    by (rule decodeRaster_ok [OF hd]) (simp_all add: push_bit_eq_mult)
  have byte: "?B ! (2 ^ 31) = 0xff"
    by (simp add: nth_append)
  have "rgbaAt img 262072 32768 =
      (pixelOf ?B (72 + (32768 * 524280 + 262072)), pixelOf ?B (72 + (32768 * 524280 + 262072)),
       pixelOf ?B (72 + (32768 * 524280 + 262072)), 255)"
    by (rule decoded_rgba [OF img_def]) simp_all
  moreover have "pixelOf ?B (72 + (32768 * 524280 + 262072)) = 255"
    by (rule pixel_index_wrapped) simp_all
  ultimately have px: "rgbaAt img 262072 32768 = (255, 255, 255, 255)"
    by simp
  have "bit (?B ! (2 ^ 31)) 7"
    unfolding byte by (simp add: bit_numeral_simps)
  with refused dec px show ?thesis by simp
qed

text \<open>
  Claim C1, amended. For every buffer whose bytes 0, 1, 2, 3 and 8 are
  \<open>0x1b, 0x1d, 0x53, 0x01, 0x00\<close>, let width be 8 times the little-endian 16-bit number
  in bytes 4 and 5 and height the little-endian 16-bit number in bytes 6 and 7. If the
  engine allocates width * height * 4 bytes, the decoder returns an image of that width
  and height whose pixel array has width * height * 4 entries. Pixel \<open>(x, y)\<close>, with
  row-major index \<open>i = y * width + x\<close>, belongs to byte \<open>9 + i div 8\<close>, most significant
  bit first: when the buffer holds that byte and its index is below \<open>2^31\<close>, the bit of
  weight \<open>2 ^ (7 - i mod 8)\<close> gives \<open>(0, 0, 0, 255)\<close> if set and
  \<open>(255, 255, 255, 255)\<close> if clear. In particular pixel \<open>(0, 0)\<close> is black iff the first
  bit of byte 9 in that order, the one of weight \<open>0x80\<close>, is set. If the engine does not
  allocate width * height * 4 bytes, decoding fails with a RangeError.
\<close>

theorem decodeRaster_image:
  assumes "8 < length buf"
    and "buf ! 0 = 0x1b" "buf ! 1 = 0x1d" "buf ! 2 = 0x53" "buf ! 3 = 0x01" "buf ! 8 = 0x00"
  shows "(8 * (unat (buf ! 4) + 256 * unat (buf ! 5))
            * (unat (buf ! 6) + 256 * unat (buf ! 7)) * 4 \<le> maxLength \<longrightarrow>
      (\<exists>img. decodeRaster maxLength buf = Inr img
        \<and> width img = 8 * (unat (buf ! 4) + 256 * unat (buf ! 5))
        \<and> height img = unat (buf ! 6) + 256 * unat (buf ! 7)
        \<and> length (data img) = width img * height img * 4
        \<and> (\<forall>x y. x < width img \<and> y < height img
              \<and> 9 + (y * width img + x) div 8 < length buf
              \<and> 9 + (y * width img + x) div 8 < 2 ^ 31 \<longrightarrow>
             rgbaAt img x y =
               (if bit (buf ! (9 + (y * width img + x) div 8)) (7 - (y * width img + x) mod 8)
                then (0, 0, 0, 255) else (255, 255, 255, 255)))
        \<and> (0 < width img \<and> 0 < height img \<and> 9 < length buf \<longrightarrow>
             (rgbaAt img 0 0 = (0, 0, 0, 255)) = bit (buf ! 9) 7)))
    \<and> (maxLength < 8 * (unat (buf ! 4) + 256 * unat (buf ! 5))
                     * (unat (buf ! 6) + 256 * unat (buf ! 7)) * 4 \<longrightarrow>
      decodeRaster maxLength buf = Inl RangeError)"
proof -
  define h where "h = unat (buf ! 6) + push_bit 8 (unat (buf ! 7))"
  define w where "w = (unat (buf ! 4) + push_bit 8 (unat (buf ! 5))) * 8"
  define img where
    "img = \<lparr>data = fst (fill buf 0 72 (replicate (w * h * 4) 0)), width = w, height = h\<rparr>"
  note hd = header_ok [OF assms]
  have W: "8 * (unat (buf ! 4) + 256 * unat (buf ! 5)) = w"
    and H: "(unat (buf ! 6) + 256 * unat (buf ! 7)) = h"
    using header_sizes(1,2) [OF w_def h_def] by simp_all
  have wh: "width img = w" "height img = h" by (simp_all add: img_def)
  have len: "length (data img) = w * h * 4" by (simp add: img_def length_fill)
  have px: "rgbaAt img x y =
      (if bit (buf ! (9 + (y * w + x) div 8)) (7 - (y * w + x) mod 8)
       then (0, 0, 0, 255) else (255, 255, 255, 255))"
    if "x < w" "y < h" "9 + (y * w + x) div 8 < length buf" "9 + (y * w + x) div 8 < 2 ^ 31"
    for x y
    unfolding decoded_rgba [OF img_def that(1,2)] pixel_in_buffer [OF that(3,4)] by simp
  have first: "(rgbaAt img 0 0 = (0, 0, 0, 255)) = bit (buf ! 9) 7"
    if "0 < w" "0 < h" "9 < length buf"
  proof -
    have z: "0 * w + 0 = (0::nat)" "(0::nat) div 8 = 0" "(0::nat) mod 8 = 0"
      "9 + (0::nat) = 9" "7 - (0::nat) = 7"
      by simp_all
    have "(9::nat) < 2 ^ 31" by simp
    with that have "rgbaAt img 0 0 = (if bit (buf ! 9) 7 then (0, 0, 0, 255) else (255, 255, 255, 255))"
      using px [of 0 0] unfolding z by blast
    then show ?thesis by simp
  qed
  show ?thesis
    unfolding W H
  proof (intro conjI impI)
    assume alloc: "w * h * 4 \<le> maxLength"
    have dec: "decodeRaster maxLength buf = Inr img"
      unfolding img_def by (rule decodeRaster_ok [OF hd h_def w_def alloc])
    show "\<exists>img. decodeRaster maxLength buf = Inr img
        \<and> width img = w
        \<and> height img = h
        \<and> length (data img) = width img * height img * 4
        \<and> (\<forall>x y. x < width img \<and> y < height img
              \<and> 9 + (y * width img + x) div 8 < length buf
              \<and> 9 + (y * width img + x) div 8 < 2 ^ 31 \<longrightarrow>
             rgbaAt img x y =
               (if bit (buf ! (9 + (y * width img + x) div 8)) (7 - (y * width img + x) mod 8)
                then (0, 0, 0, 255) else (255, 255, 255, 255)))
        \<and> (0 < width img \<and> 0 < height img \<and> 9 < length buf \<longrightarrow>
             (rgbaAt img 0 0 = (0, 0, 0, 255)) = bit (buf ! 9) 7)"
    proof (intro exI [of _ img] conjI allI impI)
      show "decodeRaster maxLength buf = Inr img" by (rule dec)
      show "width img = w" "height img = h" by (rule wh)+
      show "length (data img) = width img * height img * 4"
        by (simp only: wh len)
    next
      fix x y
      assume "x < width img \<and> y < height img
              \<and> 9 + (y * width img + x) div 8 < length buf
              \<and> 9 + (y * width img + x) div 8 < 2 ^ 31"
      then show "rgbaAt img x y =
               (if bit (buf ! (9 + (y * width img + x) div 8)) (7 - (y * width img + x) mod 8)
                then (0, 0, 0, 255) else (255, 255, 255, 255))"
        unfolding wh by (intro px) blast+
    next
      assume "0 < width img \<and> 0 < height img \<and> 9 < length buf"
      then show "(rgbaAt img 0 0 = (0, 0, 0, 255)) = bit (buf ! 9) 7"
        unfolding wh by (intro first) blast+
    qed
  next
    assume "maxLength < w * h * 4"
    then show "decodeRaster maxLength buf = Inl RangeError"
      by (rule decodeRaster_refused [OF hd h_def w_def])
  qed
qed

theorem decodeRaster_image_witness:
  "(\<exists>img. decodeRaster (2 ^ 32) [0x1b, 0x1d, 0x53, 0x01, 1, 0, 1, 0, 0, 0x80] = Inr img
     \<and> width img = 8 \<and> height img = 1 \<and> length (data img) = 32
     \<and> rgbaAt img 0 0 = (0, 0, 0, 255) \<and> rgbaAt img 1 0 = (255, 255, 255, 255))
   \<and> decodeRaster 16 [0x1b, 0x1d, 0x53, 0x01, 1, 0, 1, 0, 0, 0x80] = Inl RangeError"
proof -
  let ?B = "[0x1b, 0x1d, 0x53, 0x01, 1, 0, 1, 0, 0, 0x80] :: byte list"
  have hyp: "8 < length ?B" "?B ! 0 = 0x1b" "?B ! 1 = 0x1d" "?B ! 2 = 0x53" "?B ! 3 = 0x01"
    "?B ! 8 = 0x00"
    by simp_all
  from decodeRaster_image [OF hyp, of "2 ^ 32"] obtain img where
    dec: "decodeRaster (2 ^ 32) ?B = Inr img" and w: "width img = 8" and h: "height img = 1"
    and len: "length (data img) = width img * height img * 4"
    and px: "\<And>x y. x < width img \<and> y < height img \<and> 9 + (y * width img + x) div 8 < length ?B
            \<and> 9 + (y * width img + x) div 8 < 2 ^ 31 \<Longrightarrow>
           rgbaAt img x y =
             (if bit (?B ! (9 + (y * width img + x) div 8)) (7 - (y * width img + x) mod 8)
              then (0, 0, 0, 255) else (255, 255, 255, 255))"
    by auto
  have "rgbaAt img 0 0 = (0, 0, 0, 255)"
    using px [of 0 0] by (simp add: w h bit_numeral_simps)
  moreover have "rgbaAt img 1 0 = (255, 255, 255, 255)"
    using px [of 1 0] by (simp add: w h)
  moreover have "decodeRaster 16 ?B = Inl RangeError"
    using decodeRaster_image [OF hyp, of 16] by simp
  ultimately show ?thesis
    using dec w h len by simp
qed

subsection \<open>Buffers shorter than the header declares\<close>

text \<open>
  Claim C2, as stated, asks the decoder to fail when width and height declare more pixel
  data than the buffer holds, and to run width * height iterations on every buffer. A
  buffer that ends right after the nine header bytes and declares one row of eight pixels
  is decoded to eight white pixels, with no error. And a header that declares 32768 row
  bytes and 32768 rows asks for \<open>2^35\<close> bytes: on an engine that allocates at most
  \<open>2^32\<close> the allocation throws a RangeError and the loop is not entered.
\<close>

theorem decodeRaster_short_buffer_counterexample:
  "decodeRaster (2 ^ 32) [0x1b, 0x1d, 0x53, 0x01, 1, 0, 1, 0, 0] =
     Inr \<lparr>data = [255, 255, 255, 255, 255, 255, 255, 255, 255, 255, 255, 255, 255, 255, 255, 255,
                 255, 255, 255, 255, 255, 255, 255, 255, 255, 255, 255, 255, 255, 255, 255, 255],
          width = 8, height = 1\<rparr>
   \<and> decodeRaster (2 ^ 32) [0x1b, 0x1d, 0x53, 0x01, 0, 0x80, 0, 0x80, 0] = Inl RangeError"
proof -
  let ?B = "[0x1b, 0x1d, 0x53, 0x01, 1, 0, 1, 0, 0] :: byte list"
  have "decodeRaster (2 ^ 32) ?B =
      Inr \<lparr>data = fst (fill ?B 0 72 (replicate (8 * 1 * 4) 0)), width = 8, height = 1\<rparr>"
    by (rule decodeRaster_ok) (simp_all add: headerMismatch_def byteAt_def)
  moreover have "fst (fill ?B 0 72 (replicate (8 * 1 * 4) 0)) =
      [255, 255, 255, 255, 255, 255, 255, 255, 255, 255, 255, 255, 255, 255, 255, 255,
       255, 255, 255, 255, 255, 255, 255, 255, 255, 255, 255, 255, 255, 255, 255, 255]"
    by code_simp
  moreover have "decodeRaster (2 ^ 32) [0x1b, 0x1d, 0x53, 0x01, 0, 0x80, 0, 0x80, 0] =
      Inl RangeError"
    by (rule decodeRaster_refused [where w = 262144 and h = 32768])
      (simp_all add: headerMismatch_def byteAt_def push_bit_eq_mult)
  ultimately show ?thesis by simp
qed

text \<open>
  Claim C2, amended. For every buffer that passes the header check and whose pixel array
  of width * height * 4 bytes the engine allocates, the decoder returns an image after
  exactly width * height iterations of its loop (the bit pointer goes from 72 to
  72 + width * height). It makes no bounds check: a pixel whose bit lies in a byte past
  the end of the buffer is read as \<^verbatim>\<open>undefined\<close> and becomes white,
  \<open>(255, 255, 255, 255)\<close>, and no error is raised for it. When the engine does not
  allocate the pixel array, decoding fails with a RangeError before the first iteration.
\<close>

theorem decodeRaster_no_bounds_check:
  assumes "8 < length buf"
    and "buf ! 0 = 0x1b" "buf ! 1 = 0x1d" "buf ! 2 = 0x53" "buf ! 3 = 0x01" "buf ! 8 = 0x00"
  shows "(8 * (unat (buf ! 4) + 256 * unat (buf ! 5))
            * (unat (buf ! 6) + 256 * unat (buf ! 7)) * 4 \<le> maxLength \<longrightarrow>
      (\<exists>img. decodeRaster maxLength buf = Inr img
        \<and> snd (fill buf 0 (9 * 8) (replicate (width img * height img * 4) 0))
            = 9 * 8 + width img * height img
        \<and> (\<forall>x y. x < width img \<and> y < height img
              \<and> length buf \<le> 9 + (y * width img + x) div 8 \<longrightarrow>
             rgbaAt img x y = (255, 255, 255, 255))))
    \<and> (maxLength < 8 * (unat (buf ! 4) + 256 * unat (buf ! 5))
                     * (unat (buf ! 6) + 256 * unat (buf ! 7)) * 4 \<longrightarrow>
      decodeRaster maxLength buf = Inl RangeError)"
proof -
  define h where "h = unat (buf ! 6) + push_bit 8 (unat (buf ! 7))"
  define w where "w = (unat (buf ! 4) + push_bit 8 (unat (buf ! 5))) * 8"
  define img where
    "img = \<lparr>data = fst (fill buf 0 72 (replicate (w * h * 4) 0)), width = w, height = h\<rparr>"
  note hd = header_ok [OF assms]
  have W: "8 * (unat (buf ! 4) + 256 * unat (buf ! 5)) = w"
    and H: "(unat (buf ! 6) + 256 * unat (buf ! 7)) = h"
    using header_sizes(1,2) [OF w_def h_def] by simp_all
  have wh: "width img = w" "height img = h" by (simp_all add: img_def)
  have iter: "snd (fill buf 0 (9 * 8) (replicate (w * h * 4) 0)) = 9 * 8 + w * h"
    by (simp add: fill_iterations)
  have bound: "y * w + x < 524280 * 65535" if "x < w" "y < h" for x y
    using row_major_index [OF that] header_sizes(3) [OF w_def h_def] by (rule less_le_trans)
  have px: "rgbaAt img x y = (255, 255, 255, 255)"
    if "x < w" "y < h" "length buf \<le> 9 + (y * w + x) div 8" for x y
    unfolding decoded_rgba [OF img_def that(1,2)]
      pixel_beyond_buffer [OF that(3) bound [OF that(1,2)]] by simp
  show ?thesis
    unfolding W H
  proof (intro conjI impI)
    assume alloc: "w * h * 4 \<le> maxLength"
    have dec: "decodeRaster maxLength buf = Inr img"
      unfolding img_def by (rule decodeRaster_ok [OF hd h_def w_def alloc])
    show "\<exists>img. decodeRaster maxLength buf = Inr img
        \<and> snd (fill buf 0 (9 * 8) (replicate (width img * height img * 4) 0))
            = 9 * 8 + width img * height img
        \<and> (\<forall>x y. x < width img \<and> y < height img
              \<and> length buf \<le> 9 + (y * width img + x) div 8 \<longrightarrow>
             rgbaAt img x y = (255, 255, 255, 255))"
    proof (intro exI [of _ img] conjI allI impI)
      show "decodeRaster maxLength buf = Inr img" by (rule dec)
      show "snd (fill buf 0 (9 * 8) (replicate (width img * height img * 4) 0))
            = 9 * 8 + width img * height img"
        unfolding wh by (rule iter)
    next
      fix x y
      assume "x < width img \<and> y < height img
              \<and> length buf \<le> 9 + (y * width img + x) div 8"
      then show "rgbaAt img x y = (255, 255, 255, 255)"
        unfolding wh by (intro px) blast+
    qed
  next
    assume "maxLength < w * h * 4"
    then show "decodeRaster maxLength buf = Inl RangeError"
      by (rule decodeRaster_refused [OF hd h_def w_def])
  qed
qed

theorem decodeRaster_no_bounds_check_witness:
  "(\<exists>img. decodeRaster (2 ^ 32) [0x1b, 0x1d, 0x53, 0x01, 1, 0, 1, 0, 0] = Inr img
     \<and> snd (fill [0x1b, 0x1d, 0x53, 0x01, 1, 0, 1, 0, 0] 0 (9 * 8)
            (replicate (width img * height img * 4) 0)) = 9 * 8 + width img * height img
     \<and> rgbaAt img 3 0 = (255, 255, 255, 255))
   \<and> decodeRaster 31 [0x1b, 0x1d, 0x53, 0x01, 1, 0, 1, 0, 0] = Inl RangeError"
proof -
  let ?B = "[0x1b, 0x1d, 0x53, 0x01, 1, 0, 1, 0, 0] :: byte list"
  have hyp: "8 < length ?B" "?B ! 0 = 0x1b" "?B ! 1 = 0x1d" "?B ! 2 = 0x53" "?B ! 3 = 0x01"
    "?B ! 8 = 0x00"
    by simp_all
  from decodeRaster_no_bounds_check [OF hyp, of "2 ^ 32"] obtain img where
    dec: "decodeRaster (2 ^ 32) ?B = Inr img"
    and iter: "snd (fill ?B 0 (9 * 8) (replicate (width img * height img * 4) 0))
          = 9 * 8 + width img * height img"
    and px: "\<And>x y. x < width img \<and> y < height img
            \<and> length ?B \<le> 9 + (y * width img + x) div 8 \<Longrightarrow>
           rgbaAt img x y = (255, 255, 255, 255)"
    by auto
  have "decodeRaster (2 ^ 32) ?B = Inr \<lparr>data = fst (fill ?B 0 72 (replicate (8 * 1 * 4) 0)),
      width = 8, height = 1\<rparr>"
    by (rule decodeRaster_ok) (simp_all add: headerMismatch_def byteAt_def)
  with dec have "width img = 8" "height img = 1" by auto
  then have "rgbaAt img 3 0 = (255, 255, 255, 255)"
    using px [of 3 0] by simp
  moreover have "decodeRaster 31 ?B = Inl RangeError"
    using decodeRaster_no_bounds_check [OF hyp, of 31] by simp
  ultimately show ?thesis
    using dec iter by blast
qed

subsection \<open>Rejecting a buffer whose header does not match\<close>

text \<open>
  Claim C3. When any of the bytes at offsets 0, 1, 2, 3 and 8 is missing or differs from
  \<open>0x1b, 0x1d, 0x53, 0x01, 0x00\<close>, the decoder fails with its header error (the
  \<^verbatim>\<open>Error('Unimplemented StarPRNT data')\<close> thrown on line 11, the specification's
  MalformedRasterError), whatever the rest of the buffer holds; no image is produced and
  the encoder is not reached.
\<close>

theorem decodeRaster_rejects_header:
  assumes "length buf \<le> 8 \<or> buf ! 0 \<noteq> 0x1b \<or> buf ! 1 \<noteq> 0x1d \<or> buf ! 2 \<noteq> 0x53
             \<or> buf ! 3 \<noteq> 0x01 \<or> buf ! 8 \<noteq> 0x00"
  shows "decodeRaster maxLength buf = Inl UnimplementedStarPRNT
       \<and> convertStarprntToPng maxLength rot enc buf rotate180 = Inl UnimplementedStarPRNT"
proof -
  have "headerMismatch buf"
    using assms by (auto simp add: headerMismatch_def byteAt_def)
  then show ?thesis by (simp add: decodeRaster_def convertStarprntToPng_def)
qed

theorem decodeRaster_rejects_header_witness:
  "decodeRaster (2 ^ 32) [0x1b, 0x1d, 0x53, 0x02, 1, 0, 1, 0, 0, 0xff] = Inl UnimplementedStarPRNT
   \<and> convertStarprntToPng (2 ^ 32) (\<lambda>img. img) (\<lambda>img. Inr (data img))
        [0x1b, 0x1d, 0x53, 0x02, 1, 0, 1, 0, 0, 0xff] True = Inl UnimplementedStarPRNT"
  using decodeRaster_rejects_header
    [of "[0x1b, 0x1d, 0x53, 0x02, 1, 0, 1, 0, 0, 0xff]" "2 ^ 32" "\<lambda>img. img"
      "\<lambda>img. Inr (data img)" True]
  by simp

section \<open>Properties of the HTTP polling transport\<close>

subsection \<open>What the \<^verbatim>\<open>try\<close> block can leave behind\<close>

lemma serviceJob_trace:
  "serviceJob env rotate180 status = (tr, code, exn) \<Longrightarrow>
     filter isDELETE tr = [] \<and> code \<in> {''200'', ''500'', ''510''}"
  by (auto simp add: serviceJob_def writeOut_def get_def Let_def
      split: option.splits sum.splits if_splits prod.splits)

lemma serviceJob_code_200:
  "serviceJob env rotate180 status = (tr, code, exn) \<Longrightarrow> (code = ''200'') = (exn = None)"
  by (auto simp add: serviceJob_def writeOut_def get_def Let_def
      split: option.splits sum.splits if_splits prod.splits)

lemma index_serviceJob_trace:
  "index_serviceJob env status = (tr, code, exn) \<Longrightarrow>
     filter isDELETE tr = [] \<and> code \<in> {''200'', ''500'', ''510''}"
  by (auto simp add: index_serviceJob_def Let_def
      split: option.splits sum.splits if_splits prod.splits)

lemma index_serviceJob_code_200:
  "index_serviceJob env status = (tr, code, exn) \<Longrightarrow> (code = ''200'') = (exn = None)"
  by (auto simp add: index_serviceJob_def Let_def
      split: option.splits sum.splits if_splits prod.splits)

lemma pollIteration_serviced:
  assumes "postResponse env = Inr status" "jobReady status"
    and "serviceJob env rotate180 status = (tr, code, exn)"
  shows "\<exists>rest. pollIteration env delay rotate180 =
           POST None # tr @ DELETE code PRINTER_MAC (tokenParam (jobToken status)) # rest
         \<and> filter isRequest rest = []"
  using assms
  by (auto simp add: pollIteration_def post_def serviceAndAck_def delete'_def
      split: option.splits sum.splits prod.splits)

lemma index_iteration_serviced:
  assumes "statusResponse env = Inr status" "jobReady status"
    and "index_serviceJob env status = (tr, code, exn)"
  shows "\<exists>rest. index_iteration env delay =
           POST None # tr @ DELETE code INDEX_MAC (tokenParam (jobToken status)) # rest
         \<and> filter isRequest rest = []"
  using assms
  by (auto simp add: index_iteration_def index_serviceAndAck_def
      split: option.splits sum.splits prod.splits)

lemma no_request_no_delete: "filter isRequest tr = [] \<Longrightarrow> filter isDELETE tr = []"
proof (induction tr)
  case Nil
  then show ?case by simp
next
  case (Cons ev tr)
  then show ?case by (cases ev) (simp_all split: if_splits)
qed

subsection \<open>One acknowledgment per job\<close>

text \<open>
  Claim C4. In a poll iteration whose status response has \<open>jobReady\<close> set, whatever the
  server answers afterwards and whichever of fetch, decode, rotate and write fails,
  exactly one DELETE request is issued; it carries the value that \<open>code\<close> has when the
  \<^verbatim>\<open>finally\<close> block is entered (one of 200, 500, 510; 200 exactly when the \<^verbatim>\<open>try\<close>
  block ended without an exception) and the job token; and it is the last request of the
  iteration, so it is sent before the loop polls again. This holds for
  \<^verbatim>\<open>runHttpPolling\<close> and for the loop of src/index.js alike.
\<close>

theorem ack_sent_exactly_once:
  "(postResponse env = Inr status \<and> jobReady status \<longrightarrow>
      finalCode env rotate180 status \<in> {''200'', ''500'', ''510''}
    \<and> (finalCode env rotate180 status = ''200'') = (pendingException env rotate180 status = None)
    \<and> filter isDELETE (pollIteration env delay rotate180) =
        [DELETE (finalCode env rotate180 status) PRINTER_MAC (tokenParam (jobToken status))]
    \<and> last (filter isRequest (pollIteration env delay rotate180)) =
        DELETE (finalCode env rotate180 status) PRINTER_MAC (tokenParam (jobToken status)))
   \<and> (statusResponse ienv = Inr istatus \<and> jobReady istatus \<longrightarrow>
      index_finalCode ienv istatus \<in> {''200'', ''500'', ''510''}
    \<and> (index_finalCode ienv istatus = ''200'') = (index_pendingException ienv istatus = None)
    \<and> filter isDELETE (index_iteration ienv delay) =
        [DELETE (index_finalCode ienv istatus) INDEX_MAC (tokenParam (jobToken istatus))]
    \<and> last (filter isRequest (index_iteration ienv delay)) =
        DELETE (index_finalCode ienv istatus) INDEX_MAC (tokenParam (jobToken istatus)))"
proof (intro conjI impI)
  assume a: "postResponse env = Inr status \<and> jobReady status"
  obtain tr code exn where sj: "serviceJob env rotate180 status = (tr, code, exn)"
    by (cases "serviceJob env rotate180 status") auto
  have fc: "finalCode env rotate180 status = code"
    and pe: "pendingException env rotate180 status = exn"
    by (simp_all add: finalCode_def pendingException_def sj)
  from a sj obtain rest where
    it: "pollIteration env delay rotate180 =
           POST None # tr @ DELETE code PRINTER_MAC (tokenParam (jobToken status)) # rest"
    and rest: "filter isRequest rest = []"
    using pollIteration_serviced by blast
  show "finalCode env rotate180 status \<in> {''200'', ''500'', ''510''}"
    using serviceJob_trace [OF sj] by (simp only: fc)
  show "(finalCode env rotate180 status = ''200'') = (pendingException env rotate180 status = None)"
    using serviceJob_code_200 [OF sj] by (simp only: fc pe)
  show "filter isDELETE (pollIteration env delay rotate180) =
        [DELETE (finalCode env rotate180 status) PRINTER_MAC (tokenParam (jobToken status))]"
    using serviceJob_trace [OF sj] no_request_no_delete [OF rest] by (simp add: it fc)
  show "last (filter isRequest (pollIteration env delay rotate180)) =
        DELETE (finalCode env rotate180 status) PRINTER_MAC (tokenParam (jobToken status))"
    using rest by (simp add: it fc)
next
  assume a: "statusResponse ienv = Inr istatus \<and> jobReady istatus"
  obtain tr code exn where sj: "index_serviceJob ienv istatus = (tr, code, exn)"
    by (cases "index_serviceJob ienv istatus") auto
  have fc: "index_finalCode ienv istatus = code"
    and pe: "index_pendingException ienv istatus = exn"
    by (simp_all add: index_finalCode_def index_pendingException_def sj)
  from a sj obtain rest where
    it: "index_iteration ienv delay =
           POST None # tr @ DELETE code INDEX_MAC (tokenParam (jobToken istatus)) # rest"
    and rest: "filter isRequest rest = []"
    using index_iteration_serviced by blast
  show "index_finalCode ienv istatus \<in> {''200'', ''500'', ''510''}"
    using index_serviceJob_trace [OF sj] by (simp only: fc)
  show "(index_finalCode ienv istatus = ''200'') = (index_pendingException ienv istatus = None)"
    using index_serviceJob_code_200 [OF sj] by (simp only: fc pe)
  show "filter isDELETE (index_iteration ienv delay) =
        [DELETE (index_finalCode ienv istatus) INDEX_MAC (tokenParam (jobToken istatus))]"
    using index_serviceJob_trace [OF sj] no_request_no_delete [OF rest] by (simp add: it fc)
  show "last (filter isRequest (index_iteration ienv delay)) =
        DELETE (index_finalCode ienv istatus) INDEX_MAC (tokenParam (jobToken istatus))"
    using rest by (simp add: it fc)
qed

theorem ack_sent_exactly_once_witness:
  "filter isDELETE (pollIteration (exampleEnv (Some [png])) 5000 False) =
     [DELETE ''200'' PRINTER_MAC (Some ''job-1'')]
   \<and> last (filter isRequest (pollIteration (exampleEnv (Some [png])) 5000 False)) =
     DELETE ''200'' PRINTER_MAC (Some ''job-1'')
   \<and> filter isDELETE (index_iteration (exampleIndexEnv (exampleStatus (Some [''text/plain'']))) 5000) =
     [DELETE ''200'' INDEX_MAC (Some ''job-1'')]"
proof -
  have 1: "postResponse (exampleEnv (Some [png])) = Inr (exampleStatus (Some [png]))
      \<and> jobReady (exampleStatus (Some [png]))"
    by (simp add: exampleEnv_def exampleStatus_def)
  have 2: "statusResponse (exampleIndexEnv (exampleStatus (Some [''text/plain''])))
       = Inr (exampleStatus (Some [''text/plain'']))
      \<and> jobReady (exampleStatus (Some [''text/plain'']))"
    by (simp add: exampleIndexEnv_def exampleStatus_def)
  have 3: "finalCode (exampleEnv (Some [png])) False (exampleStatus (Some [png])) = ''200''"
    by (simp add: finalCode_def serviceJob_def writeOut_def get_def exampleEnv_def
        exampleStatus_def starprnt_def png_def)
  have 4: "index_finalCode (exampleIndexEnv (exampleStatus (Some [''text/plain''])))
        (exampleStatus (Some [''text/plain''])) = ''200''"
    by (simp add: index_finalCode_def index_serviceJob_def exampleIndexEnv_def exampleStatus_def)
  have 5: "tokenParam (jobToken (exampleStatus mts)) = Some ''job-1''" for mts
    by (simp add: tokenParam_def exampleStatus_def)
  show ?thesis
    using ack_sent_exactly_once [of "exampleEnv (Some [png])" "exampleStatus (Some [png])" False
        5000 "exampleIndexEnv (exampleStatus (Some [''text/plain'']))"
        "exampleStatus (Some [''text/plain''])"] 1 2
    by (simp only: 3 4 5)
qed

subsection \<open>Unsupported media types\<close>

text \<open>
  Claim C8. In a poll iteration of \<^verbatim>\<open>runHttpPolling\<close> with \<open>jobReady\<close> set and a
  \<open>mediaTypes\<close> list that holds neither \<open>application/vnd.star.starprnt\<close> nor
  \<open>image/png\<close> (for example \<open>[application/pdf]\<close>), the iteration consists of the status
  POST, one DELETE with code 510, the log entry and the sleep: exactly one DELETE, and no
  GET for the job body.
\<close>

theorem unsupported_media_acked_510:
  assumes "postResponse env = Inr status" and "jobReady status"
    and "mediaTypes status = Some mts" and "starprnt \<notin> set mts" and "png \<notin> set mts"
  shows "pollIteration env delay rotate180 =
           [POST None,
            DELETE ''510'' PRINTER_MAC (tokenParam (jobToken status)),
            LogError (case deleteResponse env of Some e \<Rightarrow> e | None \<Rightarrow> UnsupportedMediaTypes mts),
            Sleep delay]
       \<and> filter isDELETE (pollIteration env delay rotate180) =
           [DELETE ''510'' PRINTER_MAC (tokenParam (jobToken status))]
       \<and> filter isGET (pollIteration env delay rotate180) = []"
proof -
  have sj: "serviceJob env rotate180 status = ([], ''510'', Some (UnsupportedMediaTypes mts))"
    using assms(3-5) by (simp add: serviceJob_def)
  have "pollIteration env delay rotate180 =
           [POST None,
            DELETE ''510'' PRINTER_MAC (tokenParam (jobToken status)),
            LogError (case deleteResponse env of Some e \<Rightarrow> e | None \<Rightarrow> UnsupportedMediaTypes mts),
            Sleep delay]"
    using assms(1,2)
    by (simp add: pollIteration_def post_def serviceAndAck_def delete'_def sj split: option.splits)
  then show ?thesis by simp
qed

theorem unsupported_media_acked_510_witness:
  "pollIteration (exampleEnv (Some [''application/pdf''])) 5000 False =
     [POST None, DELETE ''510'' PRINTER_MAC (Some ''job-1''),
      LogError (UnsupportedMediaTypes [''application/pdf'']), Sleep 5000]
   \<and> filter isDELETE (pollIteration (exampleEnv (Some [''application/pdf''])) 5000 False) =
     [DELETE ''510'' PRINTER_MAC (Some ''job-1'')]
   \<and> filter isGET (pollIteration (exampleEnv (Some [''application/pdf''])) 5000 False) = []"
  using unsupported_media_acked_510 [of "exampleEnv (Some [''application/pdf''])"
      "exampleStatus (Some [''application/pdf''])" "[''application/pdf'']" 5000 False]
  by (simp add: exampleEnv_def exampleStatus_def starprnt_def png_def tokenParam_def)

subsection \<open>A job without media types\<close>

text \<open>
  Claim C10. In a poll iteration of \<^verbatim>\<open>runHttpPolling\<close> with \<open>jobReady\<close> set and no
  \<open>mediaTypes\<close> field, the \<^verbatim>\<open>try\<close> block ends with a TypeError before any request,
  \<open>code\<close> is still 500, and the iteration consists of the status POST, one DELETE with
  code 500, the log entry and the sleep: no GET is issued.
\<close>

theorem absent_mediaTypes_acked_500:
  assumes "postResponse env = Inr status" and "jobReady status" and "mediaTypes status = None"
  shows "serviceJob env rotate180 status = ([], ''500'', Some TypeError)
       \<and> pollIteration env delay rotate180 =
           [POST None,
            DELETE ''500'' PRINTER_MAC (tokenParam (jobToken status)),
            LogError (case deleteResponse env of Some e \<Rightarrow> e | None \<Rightarrow> TypeError),
            Sleep delay]
       \<and> filter isDELETE (pollIteration env delay rotate180) =
           [DELETE ''500'' PRINTER_MAC (tokenParam (jobToken status))]
       \<and> filter isGET (pollIteration env delay rotate180) = []"
proof -
  have sj: "serviceJob env rotate180 status = ([], ''500'', Some TypeError)"
    using assms(3) by (simp add: serviceJob_def)
  have "pollIteration env delay rotate180 =
           [POST None,
            DELETE ''500'' PRINTER_MAC (tokenParam (jobToken status)),
            LogError (case deleteResponse env of Some e \<Rightarrow> e | None \<Rightarrow> TypeError),
            Sleep delay]"
    using assms(1,2)
    by (simp add: pollIteration_def post_def serviceAndAck_def delete'_def sj split: option.splits)
  with sj show ?thesis by simp
qed

theorem absent_mediaTypes_acked_500_witness:
  "serviceJob (exampleEnv None) False (exampleStatus None) = ([], ''500'', Some TypeError)
   \<and> pollIteration (exampleEnv None) 5000 False =
     [POST None, DELETE ''500'' PRINTER_MAC (Some ''job-1''), LogError TypeError, Sleep 5000]
   \<and> filter isGET (pollIteration (exampleEnv None) 5000 False) = []"
  using absent_mediaTypes_acked_500 [of "exampleEnv None" "exampleStatus None" False 5000]
  by (simp add: exampleEnv_def exampleStatus_def tokenParam_def)

subsection \<open>Client actions\<close>

lemma clientActionLoop_answers:
  "clientActionLoop delay actions i acc = acc @ spec_clientAnswers delay (drop i actions)"
proof (induction delay actions i acc rule: clientActionLoop.induct)
  case (1 delay actions i acc)
  show ?case
  proof (cases "i < length actions")
    case False
    then show ?thesis by (subst clientActionLoop.simps) simp
  next
    case True
    then have d: "drop i actions = actions ! i # drop (i + 1) actions"
      by (simp add: Cons_nth_drop_Suc)
    show ?thesis
    proof (cases "request (actions ! i)")
      case None
      with True "1.IH"(1) [OF True None] show ?thesis
        by (subst clientActionLoop.simps) (simp add: d)
    next
      case (Some req)
      show ?thesis
      proof (cases "answerFor delay req")
        case None
        with True Some "1.IH"(2) [OF True Some None] show ?thesis
          by (subst clientActionLoop.simps) (simp add: d answerFor_def split: if_splits)
      next
        case (Some a)
        with True \<open>request (actions ! i) = Some req\<close>
          "1.IH"(3) [OF True \<open>request (actions ! i) = Some req\<close> Some] show ?thesis
          by (subst clientActionLoop.simps) (auto simp add: d answerFor_def split: if_splits)
      qed
    qed
  qed
qed

lemma runHttpPolling_ignores_clientAction:
  assumes "postResponse env = Inr status" and "\<not> jobReady status"
  shows "pollIteration env delay rotate180 = [POST None, Sleep delay]"
  using assms by (simp add: pollIteration_def post_def)

text \<open>
  Claim C9, as stated, is about the HTTP polling transport as a whole. Only the loop of
  src/index.js answers client actions. \<^verbatim>\<open>runHttpPolling\<close>, the loop beside the MQTT
  transport, has no such branch: for a status without a job that asks for the poll
  interval it sends the status POST and sleeps, and no follow-up POST is sent.
\<close>

theorem runHttpPolling_client_action_counterexample:
  "pollIteration
     ((exampleEnv None)
        \<lparr>postResponse := Inr (idleStatus (Present [\<lparr>request = Some ''GetPollInterval''\<rparr>]))\<rparr>)
     5000 False =
   [POST None, Sleep 5000]"
  by (simp add: pollIteration_def post_def idleStatus_def exampleEnv_def)

text \<open>
  Claim C9, amended. In the polling loop of src/index.js, when \<open>jobReady\<close> is false and
  \<open>clientAction\<close> is a list with at least one entry, the iteration sends, after the
  status POST, one follow-up POST whose \<open>clientAction\<close> list is the list of answers to
  the recognised requests in request order (\<open>GetPollInterval\<close>: the poll interval times
  1000; \<open>Encodings\<close>: \<open>text/plain\<close>; \<open>ClientType\<close>: \<open>Star Printer Emulator\<close>;
  \<open>ClientVersion\<close>: \<open>HIX\<close>); an entry with another request name, or with none, adds
  nothing. Then it sleeps (after logging, if the follow-up POST failed). In
  \<^verbatim>\<open>runHttpPolling\<close> client actions are not handled: when \<open>jobReady\<close> is false the
  iteration is the status POST and the sleep, whatever \<open>clientAction\<close> holds.
\<close>

theorem client_actions_answered:
  "(statusResponse env = Inr status \<and> \<not> jobReady status
      \<and> clientAction status = Present actions \<and> actions \<noteq> [] \<longrightarrow>
      index_iteration env (pollDelay seconds) =
        [POST None, POST (Some (spec_clientAnswers (seconds * 1000) actions))] @
        (case followUpResponse env of
           None \<Rightarrow> [Sleep (seconds * 1000)]
         | Some e \<Rightarrow> [LogError e, Sleep (seconds * 1000)]))
   \<and> (postResponse henv = Inr hstatus \<and> \<not> jobReady hstatus \<longrightarrow>
      pollIteration henv delay rotate180 = [POST None, Sleep delay])"
proof (intro conjI impI)
  assume "statusResponse env = Inr status \<and> \<not> jobReady status
      \<and> clientAction status = Present actions \<and> actions \<noteq> []"
  then show "index_iteration env (pollDelay seconds) =
        [POST None, POST (Some (spec_clientAnswers (seconds * 1000) actions))] @
        (case followUpResponse env of
           None \<Rightarrow> [Sleep (seconds * 1000)]
         | Some e \<Rightarrow> [LogError e, Sleep (seconds * 1000)])"
    by (simp add: index_iteration_def idleBranch_def clientActionLoop_answers pollDelay_def
        split: option.splits)
next
  assume "postResponse henv = Inr hstatus \<and> \<not> jobReady hstatus"
  then show "pollIteration henv delay rotate180 = [POST None, Sleep delay]"
    by (intro runHttpPolling_ignores_clientAction) blast+
qed

theorem client_actions_answered_witness:
  "index_iteration (exampleIndexEnv (idleStatus (Present exampleActions))) (pollDelay 5) =
     [POST None,
      POST (Some [(''ClientType'', Str ''Star Printer Emulator''), (''GetPollInterval'', Num 5000),
                  (''Encodings'', Str ''text/plain''), (''ClientVersion'', Str ''HIX'')]),
      Sleep 5000]
   \<and> pollIteration
       ((exampleEnv None) \<lparr>postResponse := Inr (idleStatus (Present exampleActions))\<rparr>)
       5000 False =
     [POST None, Sleep 5000]"
  using client_actions_answered
    [of "exampleIndexEnv (idleStatus (Present exampleActions))"
      "idleStatus (Present exampleActions)" exampleActions 5
      "(exampleEnv None) \<lparr>postResponse := Inr (idleStatus (Present exampleActions))\<rparr>"
      "idleStatus (Present exampleActions)" 5000 False]
  by (simp add: exampleIndexEnv_def idleStatus_def exampleActions_def exampleEnv_def)

section \<open>Properties of the MQTT push transport\<close>

lemma single_media_type:
  "(length mts \<noteq> 1 \<or> starprnt \<notin> set mts) = (mts \<noteq> [starprnt])"
  by (cases mts) auto

lemma printJobBody_shape:
  "printJobBody env rotate180 payload = (tr, code, exn) \<Longrightarrow>
     filter isPrintResult tr = [] \<and> filter (isClientStatus False) tr = []
     \<and> code \<in> {''200'', ''500'', ''510''} \<and> (code = ''200'') = (exn = None)"
  by (auto simp add: printJobBody_def statusTopic_def Let_def
      split: option.splits sum.splits if_splits)

lemma startsWith_200:
  "code \<in> {''200'', ''500'', ''510''} \<Longrightarrow> startsWith code ''200'' = (code = ''200'')"
  by (auto simp add: startsWith_def)

lemma handlePrintJob_trace:
  assumes "printJobBody env rotate180 payload = (tr, code, exn)"
  shows "fst (handlePrintJob env rotate180 payload) =
           tr @ PUBLISH resultTopic (PrintResult (jobToken payload) (startsWith code ''200'') code)
              # (if publishResult env = None then [PUBLISH statusTopic (ClientStatus False)] else [])"
  using assms by (simp add: handlePrintJob_def split: option.splits)

lemma example_decoded:
  assumes "32 \<le> maxLength"
  shows "decodeRaster maxLength exampleRaster =
     Inr \<lparr>data = [0, 0, 0, 255, 255, 255, 255, 255, 255, 255, 255, 255, 255, 255, 255, 255,
                 255, 255, 255, 255, 255, 255, 255, 255, 255, 255, 255, 255, 255, 255, 255, 255],
          width = 8, height = 1\<rparr>"
proof -
  have "decodeRaster maxLength exampleRaster =
      Inr \<lparr>data = fst (fill exampleRaster 0 72 (replicate (8 * 1 * 4) 0)),
           width = 8, height = 1\<rparr>"
    using assms
    by (intro decodeRaster_ok) (simp_all add: exampleRaster_def headerMismatch_def byteAt_def)
  moreover have "fst (fill exampleRaster 0 72 (replicate (8 * 1 * 4) 0)) =
      [0, 0, 0, 255, 255, 255, 255, 255, 255, 255, 255, 255, 255, 255, 255, 255,
       255, 255, 255, 255, 255, 255, 255, 255, 255, 255, 255, 255, 255, 255, 255, 255]"
    unfolding exampleRaster_def by code_simp
  ultimately show ?thesis by simp
qed

text \<open>
  Claim C5, as stated, gives code 510 to every job whose \<open>mediaTypes\<close> is not exactly
  \<open>[application/vnd.star.starprnt]\<close> and promises the closing not-printing status
  regardless of outcome. When the publishes themselves fail this is not so: with a raw job
  for \<open>[application/pdf]\<close>, a failing in-progress publish leaves the code at 500, and a
  failing print-result publish ends the \<^verbatim>\<open>finally\<close> block before the closing status.
\<close>

theorem print_job_publish_failure_counterexample:
  "handlePrintJob (exampleMqttEnv (Some (External ''publish'')) (Some (External ''publish'')) None)
     False (examplePayload (Some ''raw'') (Some [''application/pdf''])) =
   ([PUBLISH statusTopic (ClientStatus True),
     PUBLISH resultTopic (PrintResult (Some ''job-1'') False ''500'')],
    Inl (External ''publish''))"
  by (simp add: handlePrintJob_def printJobBody_def exampleMqttEnv_def examplePayload_def
      startsWith_def)

text \<open>
  Claim C5, amended. For every print-job message the status code is one of 200, 500, 510.
  It is 500 when \<open>jobType\<close> is not \<open>raw\<close>. When the in-progress status has been published:
  it is 510 for a raw job whose \<open>mediaTypes\<close> is not exactly the one-element list
  \<open>[application/vnd.star.starprnt]\<close>, and 200 for a raw job with that list whose data
  decodes and is written. In every case exactly one print-result message is issued, with
  the job token, the code, and a success flag that is true iff the code is 200. When that
  publish succeeds, exactly one not-printing status follows it as the last message; when
  it fails, no not-printing status is issued.
\<close>

theorem print_job_result_and_status:
  "jobStatusCode env rotate180 payload \<in> {''200'', ''500'', ''510''}
   \<and> (jobType payload \<noteq> Some ''raw'' \<longrightarrow> jobStatusCode env rotate180 payload = ''500'')
   \<and> (publishStarted env = None \<and> jobType payload = Some ''raw''
        \<and> mediaTypes payload \<noteq> Some [starprnt] \<longrightarrow>
      jobStatusCode env rotate180 payload = ''510'')
   \<and> (publishStarted env = None \<and> jobType payload = Some ''raw''
        \<and> mediaTypes payload = Some [starprnt] \<and> printData payload = Some b64
        \<and> convertStarprntToPng (mqttArrayLimit env) (mqttRotate env) (mqttEncode env)
            (fromBase64 env b64) rotate180
            = Inr pngData
        \<and> mqttWrite env pngData = None \<longrightarrow>
      jobStatusCode env rotate180 payload = ''200'')
   \<and> filter isPrintResult (fst (handlePrintJob env rotate180 payload)) =
       [PUBLISH resultTopic
          (PrintResult (jobToken payload) (jobStatusCode env rotate180 payload = ''200'')
             (jobStatusCode env rotate180 payload))]
   \<and> (publishResult env = None \<longrightarrow>
        filter (isClientStatus False) (fst (handlePrintJob env rotate180 payload)) =
          [PUBLISH statusTopic (ClientStatus False)]
      \<and> last (fst (handlePrintJob env rotate180 payload)) = PUBLISH statusTopic (ClientStatus False))
   \<and> (publishResult env \<noteq> None \<longrightarrow>
        filter (isClientStatus False) (fst (handlePrintJob env rotate180 payload)) = [])"
proof -
  obtain tr code exn where body: "printJobBody env rotate180 payload = (tr, code, exn)"
    by (cases "printJobBody env rotate180 payload") auto
  have sc: "jobStatusCode env rotate180 payload = code"
    by (simp add: jobStatusCode_def body)
  note shape = printJobBody_shape [OF body]
  note trace = handlePrintJob_trace [OF body]
  have ok: "startsWith code ''200'' = (code = ''200'')"
    using shape by (intro startsWith_200) blast
  have c1: "code \<in> {''200'', ''500'', ''510''}"
    using shape by blast
  have c2: "code = ''500''" if "jobType payload \<noteq> Some ''raw''"
    using body that by (auto simp add: printJobBody_def Let_def split: option.splits)
  have c3: "code = ''510''"
    if "publishStarted env = None \<and> jobType payload = Some ''raw''
        \<and> mediaTypes payload \<noteq> Some [starprnt]"
  proof -
    have cond: "case mediaTypes payload of
                  None \<Rightarrow> True
                | Some mts \<Rightarrow> length mts \<noteq> 1 \<or> starprnt \<notin> set mts"
      using that by (cases "mediaTypes payload") (simp_all only: single_media_type option.case, simp_all)
    have "printJobBody env rotate180 payload =
        ([PUBLISH statusTopic (ClientStatus True)], ''510'',
         Some (UnsupportedMediaTypes (case mediaTypes payload of None \<Rightarrow> [] | Some mts \<Rightarrow> mts)))"
      unfolding printJobBody_def Let_def using that cond by (simp only: option.case if_True if_False simp_thms)
    with body show ?thesis by simp
  qed
  have c4: "code = ''200''"
    if "publishStarted env = None \<and> jobType payload = Some ''raw''
        \<and> mediaTypes payload = Some [starprnt] \<and> printData payload = Some b64
        \<and> convertStarprntToPng (mqttArrayLimit env) (mqttRotate env) (mqttEncode env)
            (fromBase64 env b64) rotate180
            = Inr pngData
        \<and> mqttWrite env pngData = None"
    using body that by (auto simp add: printJobBody_def Let_def)
  have c5: "filter isPrintResult (fst (handlePrintJob env rotate180 payload)) =
       [PUBLISH resultTopic (PrintResult (jobToken payload) (code = ''200'') code)]"
    using shape by (simp add: trace ok statusTopic_def)
  have c6: "filter (isClientStatus False) (fst (handlePrintJob env rotate180 payload)) =
          [PUBLISH statusTopic (ClientStatus False)]
      \<and> last (fst (handlePrintJob env rotate180 payload)) = PUBLISH statusTopic (ClientStatus False)"
    if "publishResult env = None"
    using shape that by (simp add: trace statusTopic_def resultTopic_def)
  have c7: "filter (isClientStatus False) (fst (handlePrintJob env rotate180 payload)) = []"
    if "publishResult env \<noteq> None"
    using shape that by (simp add: trace resultTopic_def)
  show ?thesis
    unfolding sc using c1 c2 c3 c4 c5 c6 c7 by blast
qed

theorem print_job_result_and_status_witness:
  "jobStatusCode (exampleMqttEnv None None None) False (examplePayload (Some ''url'') (Some [starprnt]))
     = ''500''
   \<and> fst (handlePrintJob (exampleMqttEnv None None None) False
          (examplePayload (Some ''url'') (Some [starprnt]))) =
       [PUBLISH statusTopic (ClientStatus True),
        PUBLISH resultTopic (PrintResult (Some ''job-1'') False ''500''),
        PUBLISH statusTopic (ClientStatus False)]
   \<and> jobStatusCode (exampleMqttEnv None None None) False
        (examplePayload (Some ''raw'') (Some [''application/pdf''])) = ''510''
   \<and> jobStatusCode (exampleMqttEnv None None None) False
        (examplePayload (Some ''raw'') (Some [starprnt])) = ''200''
   \<and> filter (isClientStatus False)
        (fst (handlePrintJob (exampleMqttEnv None None None) False
               (examplePayload (Some ''raw'') (Some [starprnt])))) =
       [PUBLISH statusTopic (ClientStatus False)]
   \<and> filter (isClientStatus False)
        (fst (handlePrintJob (exampleMqttEnv None (Some (External ''publish'')) None) False
               (examplePayload (Some ''raw'') (Some [starprnt])))) = []"
proof -
  let ?env = "exampleMqttEnv None None None"
  let ?bad = "exampleMqttEnv None (Some (External ''publish'')) None"
  let ?png = "[0, 0, 0, 255, 255, 255, 255, 255, 255, 255, 255, 255, 255, 255, 255, 255,
                 255, 255, 255, 255, 255, 255, 255, 255, 255, 255, 255, 255, 255, 255, 255, 255] :: byte list"
  have conv: "convertStarprntToPng (mqttArrayLimit ?env) (mqttRotate ?env) (mqttEncode ?env)
      (fromBase64 ?env ''Gx1TAQEAAQAAgA=='') False = Inr ?png"
    by (simp add: convertStarprntToPng_def exampleMqttEnv_def example_decoded)
  have e: "publishStarted ?env = None" "publishResult ?env = None" "mqttWrite ?env ?png = None"
    "publishResult ?bad \<noteq> None"
    by (simp_all add: exampleMqttEnv_def)
  have p: "jobType (examplePayload jt mts) = jt" "mediaTypes (examplePayload jt mts) = mts"
    "printData (examplePayload jt mts) = Some ''Gx1TAQEAAQAAgA==''"
    "jobToken (examplePayload jt mts) = Some ''job-1''" for jt mts
    by (simp_all add: examplePayload_def)
  have n: "starprnt \<noteq> ''application/pdf''" by (simp add: starprnt_def)
  have url: "jobStatusCode ?env False (examplePayload (Some ''url'') (Some [starprnt])) = ''500''"
    using print_job_result_and_status
      [of ?env False "examplePayload (Some ''url'') (Some [starprnt])"]
    by (simp add: p)
  have tr: "fst (handlePrintJob ?env False (examplePayload (Some ''url'') (Some [starprnt]))) =
       [PUBLISH statusTopic (ClientStatus True),
        PUBLISH resultTopic (PrintResult (Some ''job-1'') False ''500''),
        PUBLISH statusTopic (ClientStatus False)]"
    by (simp add: handlePrintJob_def printJobBody_def exampleMqttEnv_def examplePayload_def
        startsWith_def)
  have pdf: "jobStatusCode ?env False (examplePayload (Some ''raw'') (Some [''application/pdf''])) = ''510''"
    using print_job_result_and_status
      [of ?env False "examplePayload (Some ''raw'') (Some [''application/pdf''])"] n
    by (simp add: p e)
  have ok: "jobStatusCode ?env False (examplePayload (Some ''raw'') (Some [starprnt])) = ''200''"
    using print_job_result_and_status
      [of ?env False "examplePayload (Some ''raw'') (Some [starprnt])" "''Gx1TAQEAAQAAgA==''" ?png]
      conv
    by (simp add: p e)
  have fin: "filter (isClientStatus False)
        (fst (handlePrintJob ?env False (examplePayload (Some ''raw'') (Some [starprnt])))) =
       [PUBLISH statusTopic (ClientStatus False)]"
    using print_job_result_and_status
      [of ?env False "examplePayload (Some ''raw'') (Some [starprnt])"]
    by (simp add: e)
  have nofin: "filter (isClientStatus False)
        (fst (handlePrintJob ?bad False (examplePayload (Some ''raw'') (Some [starprnt])))) = []"
    using print_job_result_and_status
      [of ?bad False "examplePayload (Some ''raw'') (Some [starprnt])"] e(4)
    by blast
  from url tr pdf ok fin nofin show ?thesis by blast
qed

section \<open>Properties of the negotiation and of the orchestrator\<close>

subsection \<open>Trigger POST\<close>

lemma parseServerSettings_trigger_post:
  assumes "serverSupportProtocol settings = Some protocols" and "''MQTT'' \<in> set protocols"
    and "settingForMQTT settings = Some m" and "useTriggerPOST m = Some True"
  shows "parseServerSettings settings = Inl TriggerPostUnsupported"
  using assms by (simp add: parseServerSettings_def)

text \<open>
  Claim C6 on the code. \<^verbatim>\<open>parseServerSettings\<close> throws for a body that lists MQTT and
  requests Trigger POST, but it is called inside the \<^verbatim>\<open>try\<close> block of the retry loop,
  whose \<^verbatim>\<open>catch\<close> (commented as the place for timeouts and network errors) takes the
  exception as well: the request is repeated after five seconds. An endpoint that
  requests Trigger POST once and answers 404 afterwards ends the negotiation with
  \<open>useMQTT = False\<close>, and the orchestrator starts HTTP polling; an endpoint that always
  requests Trigger POST is asked three times before the error leaves the negotiator.
\<close>

theorem trigger_post_is_retried:
  "parseServerSettings (mqttBody True) = Inl TriggerPostUnsupported
   \<and> getServerSettings fetchTriggerPostThen404 =
       ([SETTINGS_GET, Sleep 5000, SETTINGS_GET],
        Inr (Some \<lparr>useMQTT = False, mqttSettings = None\<rparr>))
   \<and> orchestrate fetchTriggerPostThen404 False [] = Inr [HttpPolling]
   \<and> getServerSettings fetchTriggerPost =
       ([SETTINGS_GET, Sleep 5000, SETTINGS_GET, Sleep 5000, SETTINGS_GET],
        Inl TriggerPostUnsupported)"
proof -
  have p: "parseServerSettings (mqttBody True) = Inl TriggerPostUnsupported"
    by (simp add: parseServerSettings_def mqttBody_def)
  have g1: "getServerSettings fetchTriggerPostThen404 =
       ([SETTINGS_GET, Sleep 5000, SETTINGS_GET],
        Inr (Some \<lparr>useMQTT = False, mqttSettings = None\<rparr>))"
    by code_simp
  have g2: "getServerSettings fetchTriggerPost =
       ([SETTINGS_GET, Sleep 5000, SETTINGS_GET, Sleep 5000, SETTINGS_GET],
        Inl TriggerPostUnsupported)"
    by code_simp
  have "orchestrate fetchTriggerPostThen404 False [] = Inr [HttpPolling]"
    by (simp add: orchestrate_def g1)
  with p g1 g2 show ?thesis by blast
qed

subsection \<open>Failures of the MQTT session\<close>

lemma handleEvents_rejected:
  "snd (handleEvents rotate180 evs (Rejected e)) = Rejected e"
proof (induction evs)
  case Nil
  then show ?case by simp
next
  case (Cons ev evs)
  have "snd (handleEvent rotate180 ev (Rejected e)) = Rejected e"
    by (cases ev) (auto simp add: reject_def split: option.splits sum.splits prod.splits)
  with Cons show ?case
    by (cases "handleEvent rotate180 ev (Rejected e)") (auto split: prod.splits)
qed

lemma handleEvents_no_reject:
  "\<forall>ev \<in> set evs. \<not> rejects ev \<Longrightarrow> snd (handleEvents rotate180 evs p) = p"
proof (induction evs)
  case Nil
  then show ?case by simp
next
  case (Cons ev evs)
  then have "\<not> rejects ev" by simp
  then have "snd (handleEvent rotate180 ev p) = p"
    by (cases ev rule: rejects.cases) (auto split: option.splits sum.splits prod.splits)
  with Cons show ?case
    by (cases "handleEvent rotate180 ev p") (auto split: prod.splits)
qed

lemma handleEvent_rejects:
  "rejects ev \<Longrightarrow> \<exists>e. snd (handleEvent rotate180 ev p) = Rejected e"
  by (cases ev rule: rejects.cases) (auto simp add: reject_def split: promise.splits)

lemma handleEvents_some_reject:
  "\<exists>ev \<in> set evs. rejects ev \<Longrightarrow> \<exists>e. snd (handleEvents rotate180 evs p) = Rejected e"
proof (induction evs arbitrary: p)
  case Nil
  then show ?case by simp
next
  case (Cons ev evs)
  obtain tr p' where h: "handleEvent rotate180 ev p = (tr, p')"
    by (cases "handleEvent rotate180 ev p") auto
  show ?case
  proof (cases "rejects ev")
    case True
    then obtain e where "p' = Rejected e"
      using handleEvent_rejects [of ev rotate180 p] h by auto
    then show ?thesis
      using handleEvents_rejected [of rotate180 evs e] h by (auto split: prod.splits)
  next
    case False
    with Cons.prems have "\<exists>ev \<in> set evs. rejects ev" by simp
    from Cons.IH [OF this, of p'] show ?thesis
      using h by (auto split: prod.splits)
  qed
qed

text \<open>
  Claim C7, as stated, counts a dropped connection among the failures that leave the MQTT
  transport and start the fallback. The \<^verbatim>\<open>close\<close> handler only writes to the console:
  after a connection that went down the promise is still pending and the orchestrator
  stays in MQTT mode.
\<close>

theorem dropped_connection_counterexample:
  "snd (runMqttMode (Some exampleConnection) False [Connect None, Close]) = Pending
   \<and> orchestrate fetchMqtt False [Connect None, Close] = Inr [MqttMode]"
proof -
  have "getServerSettings fetchMqtt =
      ([SETTINGS_GET], Inr (Some \<lparr>useMQTT = True, mqttSettings = Some exampleConnection\<rparr>))"
    by code_simp
  then show ?thesis
    by (simp add: orchestrate_def runMqttMode_def)
qed

text \<open>
  Claim C7, amended. With MQTT negotiated: an \<^verbatim>\<open>error\<close> event of the client, or a failed
  subscription, rejects the promise of \<^verbatim>\<open>runMqttMode\<close>, and the orchestrator then starts
  HTTP polling, once and as its last transport (\<^verbatim>\<open>runHttpPolling\<close> never returns).
  Without such an event the promise stays pending and no fallback takes place; a
  \<^verbatim>\<open>close\<close> event (a dropped connection) is not such an event.
\<close>

theorem mqtt_failure_fallback:
  assumes "snd (getServerSettings fetch) = Inr (Some settings)"
    and "useMQTT settings" and "mqttSettings settings = Some connection"
  shows "((\<exists>ev \<in> set evs. rejects ev) \<longrightarrow>
            (\<exists>e. snd (runMqttMode (Some connection) rotate180 evs) = Rejected e)
          \<and> orchestrate fetch rotate180 evs = Inr [MqttMode, HttpPolling])
       \<and> ((\<forall>ev \<in> set evs. \<not> rejects ev) \<longrightarrow>
            snd (runMqttMode (Some connection) rotate180 evs) = Pending
          \<and> orchestrate fetch rotate180 evs = Inr [MqttMode])
       \<and> rejects (ClientError e) \<and> rejects (Connect (Some e)) \<and> \<not> rejects Close"
proof (intro conjI impI)
  assume "\<exists>ev \<in> set evs. rejects ev"
  then obtain e where r: "snd (handleEvents rotate180 evs Pending) = Rejected e"
    using handleEvents_some_reject by blast
  then show "\<exists>e. snd (runMqttMode (Some connection) rotate180 evs) = Rejected e"
    by (simp add: runMqttMode_def)
  show "orchestrate fetch rotate180 evs = Inr [MqttMode, HttpPolling]"
    using assms r by (simp add: orchestrate_def runMqttMode_def)
next
  assume "\<forall>ev \<in> set evs. \<not> rejects ev"
  then have r: "snd (handleEvents rotate180 evs Pending) = Pending"
    by (rule handleEvents_no_reject)
  then show "snd (runMqttMode (Some connection) rotate180 evs) = Pending"
    by (simp add: runMqttMode_def)
  show "orchestrate fetch rotate180 evs = Inr [MqttMode]"
    using assms r by (simp add: orchestrate_def runMqttMode_def)
qed simp_all

theorem mqtt_failure_fallback_witness:
  "orchestrate fetchMqtt False [Connect None, Close, ClientError (External ''ECONNRESET'')]
     = Inr [MqttMode, HttpPolling]
   \<and> orchestrate fetchMqtt False [Connect (Some (External ''subscribe''))]
     = Inr [MqttMode, HttpPolling]
   \<and> orchestrate fetchMqtt False [Connect None, Close, Close] = Inr [MqttMode]"
proof -
  have s: "snd (getServerSettings fetchMqtt) =
      Inr (Some \<lparr>useMQTT = True, mqttSettings = Some exampleConnection\<rparr>)"
    by code_simp
  note t = mqtt_failure_fallback [OF s, of exampleConnection _ False, simplified]
  show ?thesis
    using t [of "[Connect None, Close, ClientError (External ''ECONNRESET'')]"]
      t [of "[Connect (Some (External ''subscribe''))]"]
      t [of "[Connect None, Close, Close]"]
    by simp
qed

end
